theory Spec2Isabelle
  imports Main "HOL-Library.Sublist" "HOL-Library.Char_ord" "HOL-Library.List_Lexorder"
begin

section \<open>Policy-App-Backend: storage model\<close>

text \<open>
  The service keeps all durable state in an external relational store that it reaches
  through a filter-and-execute query client. The store is modelled as a record of six
  tables, each a list of typed rows in storage order. A request handler is a function
  from the store to a result and the store after the request; handlers run one at a time.
  The store itself is assumed to answer every query (storage faults, which the handlers
  turn into HTTP 500, are outside the model), and it enforces no constraint of its own:
  every check below is one the Python code makes. Columns the code reads as text are
  never NULL in the model; the columns that may be absent are \<open>option\<close>s.

  Values the environment supplies during a request are parameters of the handler:
  each call of \<^verbatim>\<open>datetime.utcnow().isoformat()\<close> is a separate clock reading
  (\<open>now1\<close>, \<open>now2\<close> in call order), and the key the store assigns to an inserted row
  is \<open>new_id\<close>.
\<close>

type_synonym uuid = string
type_synonym timestamp = string

text \<open>\<^verbatim>\<open>HTTPException(status_code=..., detail=...)\<close>\<close>

datatype http_error = HTTPException (status_code: nat) (detail: string)

text \<open>\<^verbatim>\<open>app/models/schemas.py\<close>: the enumerations and their string values.\<close>

datatype PolicyStatus = DRAFT | APPROVED

fun PolicyStatus_value :: "PolicyStatus \<Rightarrow> string" where
  "PolicyStatus_value DRAFT = ''draft''"
| "PolicyStatus_value APPROVED = ''approved''"

datatype SuggestionStatus = PENDING | REVIEWED | IMPLEMENTED | REJECTED

fun SuggestionStatus_value :: "SuggestionStatus \<Rightarrow> string" where
  "SuggestionStatus_value PENDING = ''pending''"
| "SuggestionStatus_value REVIEWED = ''reviewed''"
| "SuggestionStatus_value IMPLEMENTED = ''implemented''"
| "SuggestionStatus_value REJECTED = ''rejected''"

datatype ReviewStatus = CONFIRM | NEEDS_WORK

fun ReviewStatus_value :: "ReviewStatus \<Rightarrow> string" where
  "ReviewStatus_value CONFIRM = ''confirm''"
| "ReviewStatus_value NEEDS_WORK = ''needs_work''"

text \<open>Request bodies (\<^verbatim>\<open>PolicyCreate\<close>, \<^verbatim>\<open>PolicyUpdate\<close>, ...). An \<^verbatim>\<open>Optional\<close>
  field is an \<open>option\<close>. The schema bounds a bylaw number by \<^verbatim>\<open>gt=0\<close>; the framework
  checks the bound and answers HTTP 422 before a handler runs (\<open>BylawCreate_valid\<close>,
  \<open>BylawUpdate_valid\<close> below). The handlers themselves do not look at the sign, and they
  are modelled for every integer.\<close>

record PolicyCreate =
  pc_policy_id :: string
  pc_policy_name :: string
  pc_section :: string
  pc_policy_content :: string
  pc_status :: PolicyStatus

record PolicyUpdate =
  pu_policy_name :: "string option"
  pu_section :: "string option"
  pu_policy_content :: "string option"
  pu_status :: "PolicyStatus option"

record BylawCreate =
  bc_bylaw_number :: int
  bc_bylaw_title :: string
  bc_bylaw_content :: string
  bc_status :: PolicyStatus

record BylawUpdate =
  bu_bylaw_number :: "int option"
  bu_bylaw_title :: "string option"
  bu_bylaw_content :: "string option"
  bu_status :: "PolicyStatus option"

definition BylawCreate_valid :: "BylawCreate \<Rightarrow> bool" where
  "BylawCreate_valid bylaw = (bc_bylaw_number bylaw > 0)"

definition BylawUpdate_valid :: "BylawUpdate \<Rightarrow> bool" where
  "BylawUpdate_valid bylaw_update =
     (case bu_bylaw_number bylaw_update of None \<Rightarrow> True | Some n \<Rightarrow> n > 0)"

record SuggestionCreate =
  sc_policy_id :: "string option"
  sc_bylaw_id :: "string option"
  sc_suggestion :: string
  sc_status :: SuggestionStatus

record PolicyReviewCreate =
  rc_review_status :: ReviewStatus

text \<open>The identity dictionary that \<^verbatim>\<open>get_current_user\<close> returns
  (\<^verbatim>\<open>{"id", "email", "role", "user_metadata"}\<close>); the provider's email may be absent.\<close>

record current_user =
  cu_id :: uuid
  cu_email :: "string option"
  cu_role :: string

text \<open>Table rows. Columns keep the names the code uses, prefixed by the table.\<close>

record policy_row =
  p_id :: uuid
  p_policy_id :: string
  p_name :: string
  p_section :: string
  p_content :: string
  p_status :: string
  p_created_at :: timestamp
  p_updated_at :: timestamp
  p_created_by :: uuid
  p_updated_by :: uuid

record version_row =
  v_id :: uuid
  v_policy_id :: uuid
  v_version_number :: int
  v_name :: string
  v_section :: string
  v_content :: string
  v_status :: string
  v_created_at :: timestamp
  v_created_by :: uuid

record bylaw_row =
  b_id :: uuid
  b_number :: int
  b_title :: string
  b_content :: string
  b_status :: string
  b_created_at :: timestamp
  b_updated_at :: timestamp
  b_created_by :: uuid
  b_updated_by :: uuid

record suggestion_row =
  s_id :: uuid
  s_policy_id :: "uuid option"
  s_bylaw_id :: "uuid option"
  s_suggestion :: string
  s_status :: string
  s_created_at :: timestamp
  s_updated_at :: timestamp

record review_row =
  r_id :: uuid
  r_policy_id :: string
  r_user_email :: string
  r_review_status :: string
  r_created_at :: timestamp
  r_updated_at :: timestamp

record user_row =
  u_id :: uuid
  u_email :: "string option"
  u_role :: string
  u_name :: "string option"

record database =
  policies :: "policy_row list"
  bylaws :: "bylaw_row list"
  suggestions :: "suggestion_row list"
  users :: "user_row list"
  policy_versions :: "version_row list"
  policy_reviews :: "review_row list"

subsection \<open>Query client\<close>

text \<open>\<^verbatim>\<open>.select("*").eq(...)\<close> is \<open>filter\<close>. \<^verbatim>\<open>.update(data).eq(...)\<close> rewrites every
  matching row and answers with the rewritten rows; \<^verbatim>\<open>.insert(row)\<close> appends the row
  and answers with it; \<^verbatim>\<open>.delete().eq(...)\<close> removes every matching row.\<close>

definition update_where :: "('r \<Rightarrow> bool) \<Rightarrow> ('r \<Rightarrow> 'r) \<Rightarrow> 'r list \<Rightarrow> 'r list" where
  "update_where P f rows = map (\<lambda>r. if P r then f r else r) rows"

definition updated_rows :: "('r \<Rightarrow> bool) \<Rightarrow> ('r \<Rightarrow> 'r) \<Rightarrow> 'r list \<Rightarrow> 'r list" where
  "updated_rows P f rows = map f (filter P rows)"

definition delete_where :: "('r \<Rightarrow> bool) \<Rightarrow> 'r list \<Rightarrow> 'r list" where
  "delete_where P rows = filter (\<lambda>r. \<not> P r) rows"

text \<open>\<^verbatim>\<open>.order(col, desc=True)\<close>\<close>

definition order_desc :: "('r \<Rightarrow> int) \<Rightarrow> 'r list \<Rightarrow> 'r list" where
  "order_desc f rows = rev (sort_key f rows)"

text \<open>Python truthiness of an \<^verbatim>\<open>Optional[str]\<close>: \<^verbatim>\<open>None\<close> and \<^verbatim>\<open>""\<close> are falsy.\<close>

fun truthy :: "string option \<Rightarrow> bool" where
  "truthy None = False"
| "truthy (Some s) = (s \<noteq> [])"

text \<open>Python's \<^verbatim>\<open>str.lower()\<close> and the substring test \<^verbatim>\<open>a in b\<close>, which is
  \<^const>\<open>sublist\<close>. The strings of the model are ASCII text: \<open>lower\<close> maps \<open>A\<close>-\<open>Z\<close> to
  \<open>a\<close>-\<open>z\<close> and leaves every other byte as it is, which is what \<^verbatim>\<open>str.lower()\<close> does on
  ASCII. Python also lowers cased letters beyond ASCII; text with such letters is outside
  the model, and nothing below is stated about it.\<close>

definition char_lower :: "char \<Rightarrow> char" where
  "char_lower c =
     (if CHR ''A'' \<le> c \<and> c \<le> CHR ''Z'' then char_of (of_char c + (32::nat)) else c)"

definition lower :: "string \<Rightarrow> string" where
  "lower s = map char_lower s"

text \<open>A response dictionary, and \<^verbatim>\<open>d.get(key, default)\<close>.\<close>

type_synonym api_dict = "string \<rightharpoonup> string"

definition dict_get :: "api_dict \<Rightarrow> string \<Rightarrow> string \<Rightarrow> string" where
  "dict_get d k dflt = (case d k of None \<Rightarrow> dflt | Some v \<Rightarrow> v)"

section \<open>Policies (\<^verbatim>\<open>app/routers/policies.py\<close>)\<close>

definition convert_policy_from_db :: "policy_row \<Rightarrow> api_dict" where
  "convert_policy_from_db row =
     [''id'' \<mapsto> p_id row,
      ''policy_id'' \<mapsto> p_policy_id row,
      ''policy_name'' \<mapsto> p_name row,
      ''section'' \<mapsto> p_section row,
      ''policy_content'' \<mapsto> p_content row,
      ''status'' \<mapsto> p_status row,
      ''created_at'' \<mapsto> p_created_at row,
      ''updated_at'' \<mapsto> p_updated_at row,
      ''created_by'' \<mapsto> p_created_by row,
      ''updated_by'' \<mapsto> p_updated_by row]"

text \<open>\<^verbatim>\<open>get_policies\<close>: the store filters, orders by section then policy code and cuts
  the page; the search filter then runs in Python over the converted dictionaries.
  \<open>limit\<close> and \<open>offset\<close> arrive validated (\<open>1 \<le> limit \<le> 100\<close>, \<open>0 \<le> offset\<close>).\<close>

definition get_policies ::
  "PolicyStatus option \<Rightarrow> string option \<Rightarrow> string option \<Rightarrow> string option \<Rightarrow> nat \<Rightarrow> nat
     \<Rightarrow> database \<Rightarrow> api_dict list" where
  "get_policies status section search policy_id limit offset db =
     (let query = policies db;
          query = (case status of None \<Rightarrow> query
                   | Some st \<Rightarrow> filter (\<lambda>r. p_status r = PolicyStatus_value st) query);
          query = (if truthy section then filter (\<lambda>r. Some (p_section r) = section) query
                   else query);
          query = (if truthy policy_id then filter (\<lambda>r. Some (p_policy_id r) = policy_id) query
                   else query);
          response = take limit (drop offset (sort_key p_section (sort_key p_policy_id query)));
          policies = map convert_policy_from_db response
      in case search of
           None \<Rightarrow> policies
         | Some s \<Rightarrow>
             if s = [] then policies
             else let search_lower = lower s
                  in filter (\<lambda>p. sublist search_lower (lower (dict_get p ''policy_name'' []))
                                \<or> sublist search_lower (lower (dict_get p ''policy_id'' []))
                                \<or> sublist search_lower (lower (dict_get p ''policy_content'' [])))
                       policies)"

definition get_approved_policies :: "string option \<Rightarrow> string option \<Rightarrow> database \<Rightarrow> api_dict list" where
  "get_approved_policies section search db =
     (let query = filter (\<lambda>r. p_status r = ''approved'') (policies db);
          query = (if truthy section then filter (\<lambda>r. Some (p_section r) = section) query
                   else query);
          response = sort_key p_section (sort_key p_policy_id query);
          policies = map convert_policy_from_db response
      in case search of
           None \<Rightarrow> policies
         | Some s \<Rightarrow>
             if s = [] then policies
             else let search_lower = lower s
                  in filter (\<lambda>p. sublist search_lower (lower (dict_get p ''name'' []))
                                \<or> sublist search_lower (lower (dict_get p ''policy_id'' []))
                                \<or> sublist search_lower (lower (dict_get p ''content'' [])))
                       policies)"

definition get_approved_policy_by_id :: "string \<Rightarrow> database \<Rightarrow> http_error + api_dict" where
  "get_approved_policy_by_id policy_id db =
     (case filter (\<lambda>r. p_policy_id r = policy_id \<and> p_status r = ''approved'') (policies db) of
        [] \<Rightarrow> Inl (HTTPException 404 ''Policy not found'')
      | row # _ \<Rightarrow> Inr (convert_policy_from_db row))"

definition create_policy ::
  "PolicyCreate \<Rightarrow> current_user \<Rightarrow> uuid \<Rightarrow> timestamp \<Rightarrow> timestamp \<Rightarrow> database
     \<Rightarrow> (http_error + api_dict) \<times> database" where
  "create_policy policy current_user new_id now1 now2 db =
     (let existing = filter (\<lambda>r. p_policy_id r = pc_policy_id policy) (policies db)
      in if existing \<noteq> [] then (Inl (HTTPException 400 ''Policy ID already exists''), db)
         else
           let policy_data =
                 \<lparr>p_id = new_id,
                  p_policy_id = pc_policy_id policy,
                  p_name = pc_policy_name policy,
                  p_section = pc_section policy,
                  p_content = pc_policy_content policy,
                  p_status = PolicyStatus_value DRAFT,
                  p_created_at = now1,
                  p_updated_at = now2,
                  p_created_by = cu_id current_user,
                  p_updated_by = cu_id current_user\<rparr>;
               response = [policy_data];
               db' = db\<lparr>policies := policies db @ [policy_data]\<rparr>
           in case response of
                [] \<Rightarrow> (Inl (HTTPException 500 ''Failed to create policy''), db')
              | row # _ \<Rightarrow> (Inr (convert_policy_from_db row), db'))"

text \<open>The \<^verbatim>\<open>update_data\<close> dictionary: a key that is absent is \<open>None\<close>.\<close>

record policy_update_data =
  ud_name :: "string option"
  ud_section :: "string option"
  ud_content :: "string option"
  ud_status :: "string option"
  ud_updated_at :: "timestamp option"
  ud_updated_by :: "uuid option"

definition or_else :: "'a option \<Rightarrow> 'a \<Rightarrow> 'a" where
  "or_else v old = (case v of None \<Rightarrow> old | Some x \<Rightarrow> x)"

definition apply_policy_update :: "policy_update_data \<Rightarrow> policy_row \<Rightarrow> policy_row" where
  "apply_policy_update d r =
     r\<lparr>p_name := or_else (ud_name d) (p_name r),
       p_section := or_else (ud_section d) (p_section r),
       p_content := or_else (ud_content d) (p_content r),
       p_status := or_else (ud_status d) (p_status r),
       p_updated_at := or_else (ud_updated_at d) (p_updated_at r),
       p_updated_by := or_else (ud_updated_by d) (p_updated_by r)\<rparr>"

text \<open>\<^verbatim>\<open>update_policy\<close>, lines 345-349: the highest stored version number of the policy,
  plus one; 1 when it has no version.\<close>

definition next_version :: "uuid \<Rightarrow> database \<Rightarrow> int" where
  "next_version policy_uuid db =
     (let versions_response =
            take 1 (order_desc v_version_number
                      (filter (\<lambda>v. v_policy_id v = policy_uuid) (policy_versions db)))
      in case versions_response of
           [] \<Rightarrow> 1
         | v # _ \<Rightarrow> v_version_number v + 1)"

definition update_policy ::
  "string \<Rightarrow> PolicyUpdate \<Rightarrow> current_user \<Rightarrow> uuid \<Rightarrow> timestamp \<Rightarrow> timestamp \<Rightarrow> database
     \<Rightarrow> (http_error + api_dict) \<times> database" where
  "update_policy policy_id policy_update current_user new_id now1 now2 db =
     (case filter (\<lambda>r. p_policy_id r = policy_id) (policies db) of
        [] \<Rightarrow> (Inl (HTTPException 404 ''Policy not found''), db)
      | existing_policy # _ \<Rightarrow>
          let policy_uuid = p_id existing_policy;
              update_data =
                \<lparr>ud_name = pu_policy_name policy_update,
                 ud_section = pu_section policy_update,
                 ud_content = pu_policy_content policy_update,
                 ud_status = Some (PolicyStatus_value DRAFT),
                 ud_updated_at = None,
                 ud_updated_by = None\<rparr>;
              has_changes =
                ((pu_policy_name policy_update \<noteq> None
                    \<and> pu_policy_name policy_update \<noteq> Some (p_name existing_policy))
                 \<or> (pu_section policy_update \<noteq> None
                    \<and> pu_section policy_update \<noteq> Some (p_section existing_policy))
                 \<or> (pu_policy_content policy_update \<noteq> None
                    \<and> pu_policy_content policy_update \<noteq> Some (p_content existing_policy))
                 \<or> (ud_status update_data \<noteq> None
                    \<and> ud_status update_data \<noteq> Some (p_status existing_policy)));
              db1 =
                (if has_changes then
                   let version_data =
                         \<lparr>v_id = new_id,
                          v_policy_id = policy_uuid,
                          v_version_number = next_version policy_uuid db,
                          v_name = p_name existing_policy,
                          v_section = p_section existing_policy,
                          v_content = p_content existing_policy,
                          v_status = p_status existing_policy,
                          v_created_at = now1,
                          v_created_by = cu_id current_user\<rparr>
                   in db\<lparr>policy_versions := policy_versions db @ [version_data]\<rparr>
                 else db);
              update_data = update_data\<lparr>ud_updated_at := Some now2,
                                        ud_updated_by := Some (cu_id current_user)\<rparr>;
              response = updated_rows (\<lambda>r. p_policy_id r = policy_id)
                           (apply_policy_update update_data) (policies db1);
              db2 = db1\<lparr>policies := update_where (\<lambda>r. p_policy_id r = policy_id)
                                        (apply_policy_update update_data) (policies db1)\<rparr>
          in (case response of
                [] \<Rightarrow> (Inl (HTTPException 500 ''Failed to update policy''), db2)
              | row # _ \<Rightarrow> (Inr (convert_policy_from_db row), db2)))"

definition delete_policy ::
  "string \<Rightarrow> current_user \<Rightarrow> database \<Rightarrow> (http_error + unit) \<times> database" where
  "delete_policy policy_id current_user db =
     (let existing = filter (\<lambda>r. p_policy_id r = policy_id) (policies db)
      in if existing = [] then (Inl (HTTPException 404 ''Policy not found''), db)
         else (Inr (),
               db\<lparr>policies := delete_where (\<lambda>r. p_policy_id r = policy_id) (policies db)\<rparr>))"

definition approve_policy ::
  "string \<Rightarrow> current_user \<Rightarrow> timestamp \<Rightarrow> database \<Rightarrow> (http_error + api_dict) \<times> database" where
  "approve_policy policy_id current_user now1 db =
     (case filter (\<lambda>r. p_policy_id r = policy_id) (policies db) of
        [] \<Rightarrow> (Inl (HTTPException 404 ''Policy not found''), db)
      | existing_policy # _ \<Rightarrow>
          let current_status = p_status existing_policy
          in if current_status = PolicyStatus_value APPROVED
             then (Inl (HTTPException 400 ''Policy is already approved''), db)
             else
               let update_data =
                     \<lparr>ud_name = None, ud_section = None, ud_content = None,
                      ud_status = Some (PolicyStatus_value APPROVED),
                      ud_updated_at = Some now1,
                      ud_updated_by = Some (cu_id current_user)\<rparr>;
                   response = updated_rows (\<lambda>r. p_policy_id r = policy_id)
                                (apply_policy_update update_data) (policies db);
                   db' = db\<lparr>policies := update_where (\<lambda>r. p_policy_id r = policy_id)
                                            (apply_policy_update update_data) (policies db)\<rparr>
               in (case response of
                     [] \<Rightarrow> (Inl (HTTPException 500 ''Failed to approve policy''), db')
                   | row # _ \<Rightarrow> (Inr (convert_policy_from_db row), db')))"

subsection \<open>Policy reviews\<close>

text \<open>\<^verbatim>\<open>submit_policy_review\<close>, lines 587-594: the email of the identity, or else the email
  column of the first users row with the identity's id.\<close>

definition resolve_user_email :: "current_user \<Rightarrow> database \<Rightarrow> string option" where
  "resolve_user_email current_user db =
     (let user_email = cu_email current_user
      in if \<not> truthy user_email then
           (let user_id = cu_id current_user
            in if user_id \<noteq> [] then
                 (case filter (\<lambda>u. u_id u = user_id) (users db) of
                    [] \<Rightarrow> user_email
                  | u # _ \<Rightarrow> u_email u)
               else user_email)
         else user_email)"

definition submit_policy_review ::
  "string \<Rightarrow> PolicyReviewCreate \<Rightarrow> current_user option \<Rightarrow> uuid \<Rightarrow> timestamp \<Rightarrow> timestamp
     \<Rightarrow> database \<Rightarrow> (http_error + string) \<times> database" where
  "submit_policy_review policy_id review current_user new_id now1 now2 db =
     (case current_user of
        None \<Rightarrow> (Inl (HTTPException 401 ''Authentication required''), db)
      | Some cu \<Rightarrow>
          (case resolve_user_email cu db of
             None \<Rightarrow> (Inl (HTTPException 400 ''User email not found''), db)
           | Some user_email \<Rightarrow>
               if user_email = [] then (Inl (HTTPException 400 ''User email not found''), db)
               else
                 let policy_check = filter (\<lambda>r. p_policy_id r = policy_id) (policies db)
                 in if policy_check = [] then (Inl (HTTPException 404 ''Policy not found''), db)
                    else
                      let existing_review =
                            filter (\<lambda>r. r_policy_id r = policy_id \<and> r_user_email r = user_email)
                              (policy_reviews db)
                      in if existing_review \<noteq> [] then
                           (Inr ''Review submitted successfully'',
                            db\<lparr>policy_reviews :=
                                 update_where
                                   (\<lambda>r. r_policy_id r = policy_id \<and> r_user_email r = user_email)
                                   (\<lambda>r. r\<lparr>r_policy_id := policy_id,
                                           r_user_email := user_email,
                                           r_review_status :=
                                             ReviewStatus_value (rc_review_status review),
                                           r_updated_at := now1\<rparr>)
                                   (policy_reviews db)\<rparr>)
                         else
                           (Inr ''Review submitted successfully'',
                            db\<lparr>policy_reviews :=
                                 policy_reviews db @
                                   [\<lparr>r_id = new_id,
                                     r_policy_id = policy_id,
                                     r_user_email = user_email,
                                     r_review_status =
                                       ReviewStatus_value (rc_review_status review),
                                     r_created_at = now2,
                                     r_updated_at = now1\<rparr>]\<rparr>)))"

definition reset_all_policy_reviews :: "current_user \<Rightarrow> database \<Rightarrow> (http_error + nat) \<times> database" where
  "reset_all_policy_reviews current_user db =
     (let reviews_response = policy_reviews db;
          review_count = length reviews_response
      in if review_count > 0 then
           let all_review_ids = map r_id reviews_response
           in (Inr review_count,
               db\<lparr>policy_reviews :=
                    delete_where (\<lambda>r. r_id r \<in> set all_review_ids) (policy_reviews db)\<rparr>)
         else (Inr review_count, db))"

section \<open>Bylaws (\<^verbatim>\<open>app/routers/bylaws.py\<close>)\<close>

record bylaw_response =
  br_id :: string
  br_bylaw_number :: int
  br_bylaw_title :: string
  br_bylaw_content :: string
  br_status :: string
  br_created_at :: timestamp
  br_updated_at :: timestamp
  br_created_by :: uuid
  br_updated_by :: uuid

definition convert_bylaw_from_db :: "bylaw_row \<Rightarrow> bylaw_response" where
  "convert_bylaw_from_db row =
     \<lparr>br_id = b_id row,
      br_bylaw_number = b_number row,
      br_bylaw_title = b_title row,
      br_bylaw_content = b_content row,
      br_status = b_status row,
      br_created_at = b_created_at row,
      br_updated_at = b_updated_at row,
      br_created_by = b_created_by row,
      br_updated_by = b_updated_by row\<rparr>"

definition create_bylaw ::
  "BylawCreate \<Rightarrow> current_user \<Rightarrow> uuid \<Rightarrow> timestamp \<Rightarrow> timestamp \<Rightarrow> database
     \<Rightarrow> (http_error + bylaw_response) \<times> database" where
  "create_bylaw bylaw current_user new_id now1 now2 db =
     (let bylaw_number = bc_bylaw_number bylaw;
          existing = filter (\<lambda>r. b_number r = bylaw_number) (bylaws db)
      in if existing \<noteq> [] then (Inl (HTTPException 400 ''Bylaw number already exists''), db)
         else
           let bylaw_data =
                 \<lparr>b_id = new_id,
                  b_number = bylaw_number,
                  b_title = bc_bylaw_title bylaw,
                  b_content = bc_bylaw_content bylaw,
                  b_status = ''draft'',
                  b_created_at = now1,
                  b_updated_at = now2,
                  b_created_by = cu_id current_user,
                  b_updated_by = cu_id current_user\<rparr>;
               response = [bylaw_data];
               db' = db\<lparr>bylaws := bylaws db @ [bylaw_data]\<rparr>
           in case response of
                [] \<Rightarrow> (Inl (HTTPException 500 ''Failed to create bylaw''), db')
              | row # _ \<Rightarrow> (Inr (convert_bylaw_from_db row), db'))"

record bylaw_update_data =
  bud_number :: "int option"
  bud_title :: "string option"
  bud_content :: "string option"
  bud_status :: "string option"
  bud_updated_at :: "timestamp option"
  bud_updated_by :: "uuid option"

definition apply_bylaw_update :: "bylaw_update_data \<Rightarrow> bylaw_row \<Rightarrow> bylaw_row" where
  "apply_bylaw_update d r =
     r\<lparr>b_number := or_else (bud_number d) (b_number r),
       b_title := or_else (bud_title d) (b_title r),
       b_content := or_else (bud_content d) (b_content r),
       b_status := or_else (bud_status d) (b_status r),
       b_updated_at := or_else (bud_updated_at d) (b_updated_at r),
       b_updated_by := or_else (bud_updated_by d) (b_updated_by r)\<rparr>"

definition update_bylaw ::
  "string \<Rightarrow> BylawUpdate \<Rightarrow> current_user \<Rightarrow> timestamp \<Rightarrow> database
     \<Rightarrow> (http_error + bylaw_response) \<times> database" where
  "update_bylaw bylaw_id bylaw_update current_user now1 db =
     (let existing = filter (\<lambda>r. b_id r = bylaw_id) (bylaws db)
      in if existing = [] then (Inl (HTTPException 404 ''Bylaw not found''), db)
         else
           let update_data =
                 \<lparr>bud_number = bu_bylaw_number bylaw_update,
                  bud_title = bu_bylaw_title bylaw_update,
                  bud_content = bu_bylaw_content bylaw_update,
                  bud_status = Some ''draft'',
                  bud_updated_at = Some now1,
                  bud_updated_by = Some (cu_id current_user)\<rparr>;
               response = updated_rows (\<lambda>r. b_id r = bylaw_id)
                            (apply_bylaw_update update_data) (bylaws db);
               db' = db\<lparr>bylaws := update_where (\<lambda>r. b_id r = bylaw_id)
                                      (apply_bylaw_update update_data) (bylaws db)\<rparr>
           in case response of
                [] \<Rightarrow> (Inl (HTTPException 500 ''Failed to update bylaw''), db')
              | row # _ \<Rightarrow> (Inr (convert_bylaw_from_db row), db'))"

definition approve_bylaw ::
  "string \<Rightarrow> current_user \<Rightarrow> timestamp \<Rightarrow> database
     \<Rightarrow> (http_error + bylaw_response) \<times> database" where
  "approve_bylaw bylaw_id current_user now1 db =
     (case filter (\<lambda>r. b_id r = bylaw_id) (bylaws db) of
        [] \<Rightarrow> (Inl (HTTPException 404 ''Bylaw not found''), db)
      | existing_bylaw # _ \<Rightarrow>
          let current_status = b_status existing_bylaw
          in if current_status = PolicyStatus_value APPROVED
             then (Inl (HTTPException 400 ''Bylaw is already approved''), db)
             else
               let update_data =
                     \<lparr>bud_number = None, bud_title = None, bud_content = None,
                      bud_status = Some (PolicyStatus_value APPROVED),
                      bud_updated_at = Some now1,
                      bud_updated_by = Some (cu_id current_user)\<rparr>;
                   response = updated_rows (\<lambda>r. b_id r = bylaw_id)
                                (apply_bylaw_update update_data) (bylaws db);
                   db' = db\<lparr>bylaws := update_where (\<lambda>r. b_id r = bylaw_id)
                                          (apply_bylaw_update update_data) (bylaws db)\<rparr>
               in (case response of
                     [] \<Rightarrow> (Inl (HTTPException 500 ''Failed to approve bylaw''), db')
                   | row # _ \<Rightarrow> (Inr (convert_bylaw_from_db row), db')))"

definition delete_bylaw ::
  "string \<Rightarrow> current_user \<Rightarrow> database \<Rightarrow> (http_error + unit) \<times> database" where
  "delete_bylaw bylaw_id current_user db =
     (let existing = filter (\<lambda>r. b_id r = bylaw_id) (bylaws db)
      in if existing = [] then (Inl (HTTPException 404 ''Bylaw not found''), db)
         else (Inr (), db\<lparr>bylaws := delete_where (\<lambda>r. b_id r = bylaw_id) (bylaws db)\<rparr>))"

section \<open>Suggestions (\<^verbatim>\<open>app/routers/suggestions.py\<close>)\<close>

text \<open>\<^verbatim>\<open>create_suggestion\<close>, lines 184-188 and 193-197: a target that is supplied is looked
  up and must exist; a target that is not supplied stays \<^verbatim>\<open>None\<close>. The response of
  \<open>create_suggestion\<close> is \<^verbatim>\<open>convert_suggestion_from_db\<close> of the inserted row, which
  repeats the row's columns and leaves the four display fields empty; the model answers
  with the row itself.\<close>

definition policy_uuid_of :: "string option \<Rightarrow> database \<Rightarrow> http_error + uuid option" where
  "policy_uuid_of policy_id db =
     (case policy_id of
        None \<Rightarrow> Inr None
      | Some pid \<Rightarrow>
          if pid = [] then Inr None
          else (case filter (\<lambda>r. p_policy_id r = pid) (policies db) of
                  [] \<Rightarrow> Inl (HTTPException 404 ''Policy not found'')
                | row # _ \<Rightarrow> Inr (Some (p_id row))))"

definition bylaw_uuid_of :: "string option \<Rightarrow> database \<Rightarrow> http_error + uuid option" where
  "bylaw_uuid_of bylaw_id db =
     (case bylaw_id of
        None \<Rightarrow> Inr None
      | Some bid \<Rightarrow>
          if bid = [] then Inr None
          else (case filter (\<lambda>r. b_id r = bid) (bylaws db) of
                  [] \<Rightarrow> Inl (HTTPException 404 ''Bylaw not found'')
                | row # _ \<Rightarrow> Inr (Some (b_id row))))"

definition create_suggestion ::
  "SuggestionCreate \<Rightarrow> uuid \<Rightarrow> timestamp \<Rightarrow> timestamp \<Rightarrow> database
     \<Rightarrow> (http_error + suggestion_row) \<times> database" where
  "create_suggestion suggestion new_id now1 now2 db =
     (if \<not> truthy (sc_policy_id suggestion) \<and> \<not> truthy (sc_bylaw_id suggestion)
      then (Inl (HTTPException 400 ''Either policy_id or bylaw_id must be provided''), db)
      else
        (case policy_uuid_of (sc_policy_id suggestion) db of
           Inl e \<Rightarrow> (Inl e, db)
         | Inr policy_uuid \<Rightarrow>
             (case bylaw_uuid_of (sc_bylaw_id suggestion) db of
                Inl e \<Rightarrow> (Inl e, db)
              | Inr bylaw_uuid \<Rightarrow>
                  let suggestion_data =
                        \<lparr>s_id = new_id,
                         s_policy_id = policy_uuid,
                         s_bylaw_id = bylaw_uuid,
                         s_suggestion = sc_suggestion suggestion,
                         s_status = SuggestionStatus_value (sc_status suggestion),
                         s_created_at = now1,
                         s_updated_at = now2\<rparr>;
                      response = [suggestion_data];
                      db' = db\<lparr>suggestions := suggestions db @ [suggestion_data]\<rparr>
                  in (case response of
                        [] \<Rightarrow> (Inl (HTTPException 500 ''Failed to create suggestion''), db')
                      | row # _ \<Rightarrow> (Inr row, db')))))"

definition delete_suggestion ::
  "string \<Rightarrow> current_user \<Rightarrow> database \<Rightarrow> (http_error + unit) \<times> database" where
  "delete_suggestion suggestion_id current_user db =
     (let existing = filter (\<lambda>r. s_id r = suggestion_id) (suggestions db)
      in if existing = [] then (Inl (HTTPException 404 ''Suggestion not found''), db)
         else (Inr (),
               db\<lparr>suggestions := delete_where (\<lambda>r. s_id r = suggestion_id) (suggestions db)\<rparr>))"

section \<open>Login (\<^verbatim>\<open>app/routers/auth.py\<close>)\<close>

text \<open>The identity provider is a collaborator: \<^verbatim>\<open>db.auth.sign_in_with_password\<close> is a
  parameter of \<open>login\<close>. It raises, or returns a response that may lack the user or the
  session. The \<^verbatim>\<open>except\<close> branch around the insert of the missing users row runs
  only when the store fails, and it ends in the same 403.\<close>

record LoginRequest =
  lr_email :: string
  lr_password :: string

record auth_user =
  au_id :: uuid
  au_email :: string

record auth_session =
  as_access_token :: string

record auth_response =
  ar_user :: "auth_user option"
  ar_session :: "auth_session option"

datatype sign_in_result = Raises string | Returns "auth_response option"

record login_user =
  lu_id :: uuid
  lu_email :: string
  lu_name :: "string option"
  lu_role :: string

record LoginResponse =
  resp_access_token :: string
  resp_token_type :: string
  resp_user :: login_user

text \<open>The \<open>detail\<close> texts of the two 403 answers of \<^verbatim>\<open>login\<close> (lines 154 and 162); the
  second quotes the role between apostrophes.\<close>

definition no_row_denied_detail :: string where
  "no_row_denied_detail =
     ''Access denied. Only admin and policy working group members can access the admin '' @
     ''dashboard. Please contact an administrator to upgrade your account.''"

definition role_denied_detail :: "string \<Rightarrow> string" where
  "role_denied_detail role =
     ''Access denied. Your current role is '' @ [CHR 0x27] @ role @ [CHR 0x27] @
     ''. Only admin and policy working group members can access the admin dashboard. '' @
     ''Please contact an administrator to upgrade your account.''"

text \<open>\<^verbatim>\<open>login\<close>, lines 96-108: the users row by id; when there is none, the row by email,
  which is then re-keyed to the provider's id and read again.\<close>

definition find_user_data :: "auth_user \<Rightarrow> database \<Rightarrow> user_row list \<times> database" where
  "find_user_data user db =
     (let user_data = filter (\<lambda>u. u_id u = au_id user) (users db)
      in if user_data = [] then
           (let user_data = filter (\<lambda>u. u_email u = Some (au_email user)) (users db)
            in if user_data \<noteq> [] then
                 let db' = db\<lparr>users := update_where (\<lambda>u. u_email u = Some (au_email user))
                                          (\<lambda>u. u\<lparr>u_id := au_id user\<rparr>) (users db)\<rparr>
                 in (filter (\<lambda>u. u_id u = au_id user) (users db'), db')
               else (user_data, db))
         else (user_data, db))"

definition login ::
  "(LoginRequest \<Rightarrow> sign_in_result) \<Rightarrow> LoginRequest \<Rightarrow> database
     \<Rightarrow> (http_error + LoginResponse) \<times> database" where
  "login sign_in_with_password login_data db =
     (case sign_in_with_password login_data of
        Raises e \<Rightarrow> (Inl (HTTPException 401 (''Login failed: '' @ e)), db)
      | Returns None \<Rightarrow> (Inl (HTTPException 401 ''Invalid email or password''), db)
      | Returns (Some auth_response) \<Rightarrow>
          (case ar_user auth_response of
             None \<Rightarrow> (Inl (HTTPException 401 ''Invalid email or password''), db)
           | Some user \<Rightarrow>
               (case ar_session auth_response of
                  None \<Rightarrow>
                    (Inl (HTTPException 401
                       ''Email not confirmed. Please check your email and verify your account.''),
                     db)
                | Some session \<Rightarrow>
                    (case find_user_data user db of
                       (u # _, db1) \<Rightarrow>
                         let role = u_role u;
                             name = u_name u
                         in if role \<notin> set [''admin'', ''policy_working_group'']
                            then (Inl (HTTPException 403
                                    (role_denied_detail role)), db1)
                            else (Inr \<lparr>resp_access_token = as_access_token session,
                                       resp_token_type = ''bearer'',
                                       resp_user = \<lparr>lu_id = au_id user,
                                               lu_email = au_email user,
                                               lu_name = name,
                                               lu_role = role\<rparr>\<rparr>, db1)
                     | ([], db1) \<Rightarrow>
                         (Inl (HTTPException 403 no_row_denied_detail),
                          db1\<lparr>users := users db1 @
                                 [\<lparr>u_id = au_id user,
                                   u_email = Some (au_email user),
                                   u_role = ''public'',
                                   u_name = None\<rparr>]\<rparr>)))))"

section \<open>Sequences of requests\<close>

text \<open>The requests that write to the store, with the values the environment supplies to
  each. The user-administration endpoints of \<^verbatim>\<open>auth.py\<close> (register, role change,
  user deletion) write to the users table only and are left out.\<close>

datatype operation =
    CreatePolicy PolicyCreate current_user uuid timestamp timestamp
  | UpdatePolicy string PolicyUpdate current_user uuid timestamp timestamp
  | DeletePolicy string current_user
  | ApprovePolicy string current_user timestamp
  | SubmitPolicyReview string PolicyReviewCreate "current_user option" uuid timestamp timestamp
  | ResetAllPolicyReviews current_user
  | CreateBylaw BylawCreate current_user uuid timestamp timestamp
  | UpdateBylaw string BylawUpdate current_user timestamp
  | ApproveBylaw string current_user timestamp
  | DeleteBylaw string current_user
  | CreateSuggestion SuggestionCreate uuid timestamp timestamp
  | DeleteSuggestion string current_user
  | Login "LoginRequest \<Rightarrow> sign_in_result" LoginRequest

fun perform :: "operation \<Rightarrow> database \<Rightarrow> database" where
  "perform (CreatePolicy policy cu new_id now1 now2) db =
     snd (create_policy policy cu new_id now1 now2 db)"
| "perform (UpdatePolicy policy_id upd cu new_id now1 now2) db =
     snd (update_policy policy_id upd cu new_id now1 now2 db)"
| "perform (DeletePolicy policy_id cu) db = snd (delete_policy policy_id cu db)"
| "perform (ApprovePolicy policy_id cu now1) db = snd (approve_policy policy_id cu now1 db)"
| "perform (SubmitPolicyReview policy_id review cu new_id now1 now2) db =
     snd (submit_policy_review policy_id review cu new_id now1 now2 db)"
| "perform (ResetAllPolicyReviews cu) db = snd (reset_all_policy_reviews cu db)"
| "perform (CreateBylaw bylaw cu new_id now1 now2) db =
     snd (create_bylaw bylaw cu new_id now1 now2 db)"
| "perform (UpdateBylaw bylaw_id upd cu now1) db = snd (update_bylaw bylaw_id upd cu now1 db)"
| "perform (ApproveBylaw bylaw_id cu now1) db = snd (approve_bylaw bylaw_id cu now1 db)"
| "perform (DeleteBylaw bylaw_id cu) db = snd (delete_bylaw bylaw_id cu db)"
| "perform (CreateSuggestion suggestion new_id now1 now2) db =
     snd (create_suggestion suggestion new_id now1 now2 db)"
| "perform (DeleteSuggestion suggestion_id cu) db = snd (delete_suggestion suggestion_id cu db)"
| "perform (Login sign_in login_data) db = snd (login sign_in login_data db)"

fun run :: "operation list \<Rightarrow> database \<Rightarrow> database" where
  "run [] db = db"
| "run (op # ops) db = run ops (perform op db)"

fun is_approve :: "operation \<Rightarrow> bool" where
  "is_approve (ApprovePolicy _ _ _) = True"
| "is_approve (ApproveBylaw _ _ _) = True"
| "is_approve _ = False"

section \<open>Specification-side notions\<close>

text \<open>The change-set of an update request against the stored row, in the words of the
  specification: the supplied fields that differ from the row, and the status when the
  forced value \<open>draft\<close> differs from the row's status.\<close>

definition change_set :: "PolicyUpdate \<Rightarrow> policy_row \<Rightarrow> string list" where
  "change_set upd row =
     (case pu_policy_name upd of
        None \<Rightarrow> [] | Some n \<Rightarrow> if n \<noteq> p_name row then [''name''] else []) @
     (case pu_section upd of
        None \<Rightarrow> [] | Some s \<Rightarrow> if s \<noteq> p_section row then [''section''] else []) @
     (case pu_policy_content upd of
        None \<Rightarrow> [] | Some c \<Rightarrow> if c \<noteq> p_content row then [''content''] else []) @
     (if PolicyStatus_value DRAFT \<noteq> p_status row then [''status''] else [])"

text \<open>The highest version number stored for a policy's surrogate key; 0 when it has no
  version.\<close>

definition prior_max_version :: "uuid \<Rightarrow> database \<Rightarrow> int" where
  "prior_max_version policy_uuid db =
     (let ns = map v_version_number
                 (filter (\<lambda>v. v_policy_id v = policy_uuid) (policy_versions db))
      in if ns = [] then 0 else Max (set ns))"

text \<open>The pair that identifies a review: the policy's human code and the submitter's
  email.\<close>

definition review_key :: "review_row \<Rightarrow> string \<times> string" where
  "review_key r = (r_policy_id r, r_user_email r)"

text \<open>At most one review row for every (policy, email) pair.\<close>

definition reviews_unique :: "database \<Rightarrow> bool" where
  "reviews_unique db = distinct (map review_key (policy_reviews db))"

text \<open>The roles that may complete a login.\<close>

definition can_login :: "string \<Rightarrow> bool" where
  "can_login role = (role = ''admin'' \<or> role = ''policy_working_group'')"

section \<open>Example data\<close>

definition travel_policy :: policy_row where
  "travel_policy =
     \<lparr>p_id = ''p-1'', p_policy_id = ''2.3.1'', p_name = ''Travel'', p_section = ''2'',
      p_content = ''Old text'', p_status = ''approved'', p_created_at = ''t0'',
      p_updated_at = ''t0'', p_created_by = ''u-1'', p_updated_by = ''u-1''\<rparr>"

definition travel_version :: version_row where
  "travel_version =
     \<lparr>v_id = ''v-1'', v_policy_id = ''p-1'', v_version_number = 1, v_name = ''Travel'',
      v_section = ''2'', v_content = ''Older text'', v_status = ''draft'', v_created_at = ''t0'',
      v_created_by = ''u-1''\<rparr>"

definition travel_db :: database where
  "travel_db =
     \<lparr>policies = [travel_policy], bylaws = [], suggestions = [], users = [],
      policy_versions = [travel_version], policy_reviews = []\<rparr>"

definition admin_user :: current_user where
  "admin_user = \<lparr>cu_id = ''u-1'', cu_email = Some ''admin@x.com'', cu_role = ''admin''\<rparr>"

definition content_update :: PolicyUpdate where
  "content_update =
     \<lparr>pu_policy_name = None, pu_section = None, pu_policy_content = Some ''New text'',
      pu_status = Some APPROVED\<rparr>"

definition empty_update :: PolicyUpdate where
  "empty_update =
     \<lparr>pu_policy_name = None, pu_section = None, pu_policy_content = None, pu_status = None\<rparr>"

definition draft_policy :: policy_row where
  "draft_policy =
     \<lparr>p_id = ''p-2'', p_policy_id = ''1.1.1'', p_name = ''Elections'', p_section = ''1'',
      p_content = ''Draft text'', p_status = ''draft'', p_created_at = ''t0'',
      p_updated_at = ''t0'', p_created_by = ''u-1'', p_updated_by = ''u-1''\<rparr>"

definition quorum_bylaw :: bylaw_row where
  "quorum_bylaw =
     \<lparr>b_id = ''b-1'', b_number = 7, b_title = ''Quorum'', b_content = ''Ten members'',
      b_status = ''approved'', b_created_at = ''t0'', b_updated_at = ''t0'',
      b_created_by = ''u-1'', b_updated_by = ''u-1''\<rparr>"

definition dues_bylaw :: bylaw_row where
  "dues_bylaw =
     \<lparr>b_id = ''b-2'', b_number = 8, b_title = ''Dues'', b_content = ''Annual'',
      b_status = ''draft'', b_created_at = ''t0'', b_updated_at = ''t0'',
      b_created_by = ''u-1'', b_updated_by = ''u-1''\<rparr>"

definition sample_db :: database where
  "sample_db =
     \<lparr>policies = [travel_policy, draft_policy], bylaws = [quorum_bylaw, dues_bylaw],
      suggestions = [], users = [], policy_versions = [travel_version], policy_reviews = []\<rparr>"

definition title_update :: BylawUpdate where
  "title_update =
     \<lparr>bu_bylaw_number = None, bu_bylaw_title = Some ''Quorum rules'', bu_bylaw_content = None,
      bu_status = Some APPROVED\<rparr>"

definition sample_ops :: "operation list" where
  "sample_ops =
     [UpdatePolicy ''2.3.1'' content_update admin_user ''v-2'' ''t1'' ''t2'',
      UpdateBylaw ''b-1'' title_update admin_user ''t1'']"

definition empty_db :: database where
  "empty_db = \<lparr>policies = [], bylaws = [], suggestions = [], users = [],
               policy_versions = [], policy_reviews = []\<rparr>"

definition travel_create :: PolicyCreate where
  "travel_create =
     \<lparr>pc_policy_id = ''2.3.1'', pc_policy_name = ''Travel'', pc_section = ''2'',
      pc_policy_content = ''Text'', pc_status = APPROVED\<rparr>"

definition quorum_create :: BylawCreate where
  "quorum_create =
     \<lparr>bc_bylaw_number = 7, bc_bylaw_title = ''Quorum'', bc_bylaw_content = ''Ten members'',
      bc_status = APPROVED\<rparr>"





definition confirm_review :: PolicyReviewCreate where
  "confirm_review = \<lparr>rc_review_status = CONFIRM\<rparr>"

definition needs_work_review :: PolicyReviewCreate where
  "needs_work_review = \<lparr>rc_review_status = NEEDS_WORK\<rparr>"

definition no_email_user :: current_user where
  "no_email_user = \<lparr>cu_id = ''u-9'', cu_email = None, cu_role = ''public''\<rparr>"

definition member_user :: current_user where
  "member_user = \<lparr>cu_id = ''u-2'', cu_email = Some ''a@x.com'', cu_role = ''public''\<rparr>"

definition first_review :: review_row where
  "first_review =
     \<lparr>r_id = ''r-1'', r_policy_id = ''2.3.1'', r_user_email = ''a@x.com'',
      r_review_status = ''confirm'', r_created_at = ''t2'', r_updated_at = ''t1''\<rparr>"

definition reviewed_db :: database where
  "reviewed_db = sample_db\<lparr>policy_reviews := [first_review]\<rparr>"

definition review_ops :: "operation list" where
  "review_ops =
     [SubmitPolicyReview ''2.3.1'' confirm_review (Some member_user) ''r-1'' ''t1'' ''t2'',
      SubmitPolicyReview ''2.3.1'' needs_work_review (Some member_user) ''r-2'' ''t3'' ''t4'']"

definition users_db :: database where
  "users_db =
     sample_db\<lparr>users :=
       [\<lparr>u_id = ''u-1'', u_email = Some ''admin@x.com'', u_role = ''admin'',
         u_name = Some ''Ada''\<rparr>,
        \<lparr>u_id = ''u-2'', u_email = Some ''a@x.com'', u_role = ''public'', u_name = None\<rparr>]\<rparr>"

definition signed_in :: "uuid \<Rightarrow> string \<Rightarrow> auth_response" where
  "signed_in uid email =
     \<lparr>ar_user = Some \<lparr>au_id = uid, au_email = email\<rparr>,
      ar_session = Some \<lparr>as_access_token = ''token''\<rparr>\<rparr>"

definition provider :: "uuid \<Rightarrow> LoginRequest \<Rightarrow> sign_in_result" where
  "provider uid login_data = Returns (Some (signed_in uid (lr_email login_data)))"

definition credentials :: "string \<Rightarrow> LoginRequest" where
  "credentials email = \<lparr>lr_email = email, lr_password = ''secret''\<rparr>"

definition anonymous_db :: database where
  "anonymous_db =
     sample_db\<lparr>users :=
       [\<lparr>u_id = ''u-9'', u_email = None, u_role = ''public'', u_name = None\<rparr>]\<rparr>"

section \<open>Query-client lemmas\<close>

lemma sorted_last_Max: "sorted xs \<Longrightarrow> xs \<noteq> [] \<Longrightarrow> last xs = Max (set (xs::int list))"
proof (induction xs)
  case Nil
  then show ?case by simp
next
  case (Cons a xs)
  show ?case
  proof (cases "xs = []")
    case True
    then show ?thesis by simp
  next
    case False
    with Cons have "last xs = Max (set xs)" by simp
    moreover from Cons.prems have "\<forall>y\<in>set xs. a \<le> y" by simp
    ultimately show ?thesis using False
      by (simp add: max_absorb2)
  qed
qed

lemma take1_rev: "take (Suc 0) (rev xs) = (if xs = [] then [] else [last xs])"
  by (cases xs rule: rev_cases) simp_all

lemma updated_rows_Cons: "filter P rows = x # xs \<Longrightarrow> updated_rows P f rows = f x # map f xs"
  by (simp add: updated_rows_def)

section \<open>Version snapshots on update\<close>

lemma next_version_prior_max: "next_version pid db = prior_max_version pid db + 1"
proof -
  let ?vs = "filter (\<lambda>v. v_policy_id v = pid) (policy_versions db)"
  show ?thesis
  proof (cases "?vs = []")
    case True
    then show ?thesis by (simp add: next_version_def prior_max_version_def order_desc_def)
  next
    case False
    let ?s = "sort_key v_version_number ?vs"
    have ne: "?s \<noteq> []" using False by (metis length_sort list.size(3) length_0_conv)
    have "v_version_number (last ?s) = last (map v_version_number ?s)"
      using ne by (simp add: last_map)
    also have "\<dots> = Max (set (map v_version_number ?s))"
      using ne by (intro sorted_last_Max) simp_all
    also have "\<dots> = Max (set (map v_version_number ?vs))" by simp
    finally have "v_version_number (last ?s) = Max (set (map v_version_number ?vs))" .
    then show ?thesis using False ne
      by (simp add: next_version_def prior_max_version_def order_desc_def take1_rev)
  qed
qed

lemma has_changes_change_set:
  "((pu_policy_name upd \<noteq> None \<and> pu_policy_name upd \<noteq> Some (p_name e))
     \<or> (pu_section upd \<noteq> None \<and> pu_section upd \<noteq> Some (p_section e))
     \<or> (pu_policy_content upd \<noteq> None \<and> pu_policy_content upd \<noteq> Some (p_content e))
     \<or> (''draft'' \<noteq> p_status e)) = (change_set upd e \<noteq> [])"
  by (auto simp: change_set_def split: option.splits)

text \<open>
  C1. An update request on an existing policy succeeds, and it appends exactly one row to
  the version table when the change-set is non-empty and none when it is empty. The new
  row carries the prior maximum version number of the policy's surrogate key plus one
  (1 when the policy had no version) and the name, section, content and status of the
  row as it was before the update.
\<close>

theorem update_policy_version_snapshot:
  assumes "filter (\<lambda>r. p_policy_id r = policy_id) (policies db) = existing # rest"
  shows "(\<exists>d. fst (update_policy policy_id upd cu new_id now1 now2 db) = Inr d)
       \<and> policy_versions (snd (update_policy policy_id upd cu new_id now1 now2 db)) =
          (if change_set upd existing \<noteq> [] then
             policy_versions db @
               [\<lparr>v_id = new_id,
                 v_policy_id = p_id existing,
                 v_version_number = prior_max_version (p_id existing) db + 1,
                 v_name = p_name existing,
                 v_section = p_section existing,
                 v_content = p_content existing,
                 v_status = p_status existing,
                 v_created_at = now1,
                 v_created_by = cu_id cu\<rparr>]
           else policy_versions db)"
  using assms has_changes_change_set[of upd existing]
  by (simp add: update_policy_def Let_def updated_rows_Cons next_version_prior_max)

theorem update_policy_version_snapshot_witness:
  "filter (\<lambda>r. p_policy_id r = ''2.3.1'') (policies travel_db) = travel_policy # []
   \<and> change_set content_update travel_policy \<noteq> []
   \<and> policy_versions
        (snd (update_policy ''2.3.1'' content_update admin_user ''v-2'' ''t1'' ''t2'' travel_db)) =
      [travel_version,
       \<lparr>v_id = ''v-2'', v_policy_id = ''p-1'', v_version_number = 2, v_name = ''Travel'',
        v_section = ''2'', v_content = ''Old text'', v_status = ''approved'',
        v_created_at = ''t1'', v_created_by = ''u-1''\<rparr>]
   \<and> filter (\<lambda>r. p_policy_id r = ''1.1.1'') (policies sample_db) = draft_policy # []
   \<and> change_set empty_update draft_policy = []
   \<and> policy_versions
        (snd (update_policy ''1.1.1'' empty_update admin_user ''v-2'' ''t1'' ''t2'' sample_db)) =
      [travel_version]"
proof -
  have h: "filter (\<lambda>r. p_policy_id r = ''2.3.1'') (policies travel_db) = travel_policy # []"
    by (simp add: travel_db_def travel_policy_def)
  have c: "change_set content_update travel_policy \<noteq> []"
    by (simp add: change_set_def content_update_def travel_policy_def)
  have m: "prior_max_version (p_id travel_policy) travel_db = 1"
    by (simp add: prior_max_version_def travel_db_def travel_policy_def travel_version_def)
  have h': "filter (\<lambda>r. p_policy_id r = ''1.1.1'') (policies sample_db) = draft_policy # []"
    by (simp add: sample_db_def travel_policy_def draft_policy_def)
  have c': "change_set empty_update draft_policy = []"
    by (simp add: change_set_def empty_update_def draft_policy_def)
  have v: "policy_versions travel_db = [travel_version]"
    "policy_versions sample_db = [travel_version]"
    "p_id travel_policy = ''p-1''" "p_name travel_policy = ''Travel''"
    "p_section travel_policy = ''2''" "p_content travel_policy = ''Old text''"
    "p_status travel_policy = ''approved''" "cu_id admin_user = ''u-1''"
    by (simp_all add: travel_db_def sample_db_def travel_policy_def admin_user_def)
  show ?thesis
    using update_policy_version_snapshot
            [OF h, of content_update admin_user "''v-2''" "''t1''" "''t2''"]
      update_policy_version_snapshot
            [OF h', of empty_update admin_user "''v-2''" "''t1''" "''t2''"] h h' c c' m
    by (simp add: v)
qed

lemmas sample_defs = sample_db_def travel_policy_def draft_policy_def quorum_bylaw_def
  dues_bylaw_def travel_version_def admin_user_def

lemma update_where_map: "update_where P f rows = map (\<lambda>r. if P r then f r else r) rows"
  by (simp add: update_where_def)

section \<open>Approval\<close>

text \<open>
  C5. Approving a policy or bylaw fails with 404 when the identifier resolves to no row,
  and with 400 when the resolved row is already approved; in both cases the store is
  left as it was. Otherwise it succeeds: the row's status becomes \<open>approved\<close> and
  \<open>updated_at\<close>, \<open>updated_by\<close> are stamped, while every other column (name, section and
  content of a policy; number, title and content of a bylaw) keeps its value.
\<close>

theorem approve_sets_approved:
  "(filter (\<lambda>r. p_policy_id r = policy_id) (policies db) = [] \<longrightarrow>
      approve_policy policy_id cu now1 db = (Inl (HTTPException 404 ''Policy not found''), db))
   \<and> (\<forall>e rest. filter (\<lambda>r. p_policy_id r = policy_id) (policies db) = e # rest
          \<and> p_status e = ''approved'' \<longrightarrow>
        approve_policy policy_id cu now1 db =
          (Inl (HTTPException 400 ''Policy is already approved''), db))
   \<and> (\<forall>e rest. filter (\<lambda>r. p_policy_id r = policy_id) (policies db) = e # rest
          \<and> p_status e \<noteq> ''approved'' \<longrightarrow>
        approve_policy policy_id cu now1 db =
          (Inr (convert_policy_from_db
                  (e\<lparr>p_status := ''approved'', p_updated_at := now1, p_updated_by := cu_id cu\<rparr>)),
           db\<lparr>policies :=
                map (\<lambda>r. if p_policy_id r = policy_id
                          then r\<lparr>p_status := ''approved'', p_updated_at := now1,
                                 p_updated_by := cu_id cu\<rparr>
                          else r) (policies db)\<rparr>))
   \<and> (filter (\<lambda>r. b_id r = bylaw_id) (bylaws db) = [] \<longrightarrow>
        approve_bylaw bylaw_id cu now1 db = (Inl (HTTPException 404 ''Bylaw not found''), db))
   \<and> (\<forall>e rest. filter (\<lambda>r. b_id r = bylaw_id) (bylaws db) = e # rest
          \<and> b_status e = ''approved'' \<longrightarrow>
        approve_bylaw bylaw_id cu now1 db =
          (Inl (HTTPException 400 ''Bylaw is already approved''), db))
   \<and> (\<forall>e rest. filter (\<lambda>r. b_id r = bylaw_id) (bylaws db) = e # rest
          \<and> b_status e \<noteq> ''approved'' \<longrightarrow>
        approve_bylaw bylaw_id cu now1 db =
          (Inr (convert_bylaw_from_db
                  (e\<lparr>b_status := ''approved'', b_updated_at := now1, b_updated_by := cu_id cu\<rparr>)),
           db\<lparr>bylaws :=
                map (\<lambda>r. if b_id r = bylaw_id
                          then r\<lparr>b_status := ''approved'', b_updated_at := now1,
                                 b_updated_by := cu_id cu\<rparr>
                          else r) (bylaws db)\<rparr>))"
  by (simp add: approve_policy_def approve_bylaw_def Let_def updated_rows_Cons update_where_map
        apply_policy_update_def apply_bylaw_update_def or_else_def)

theorem approve_sets_approved_witness:
  "(filter (\<lambda>r. p_policy_id r = ''9.9.9'') (policies sample_db) = []
      \<and> approve_policy ''9.9.9'' admin_user ''t1'' sample_db =
          (Inl (HTTPException 404 ''Policy not found''), sample_db))
   \<and> (filter (\<lambda>r. p_policy_id r = ''2.3.1'') (policies sample_db) = [travel_policy]
      \<and> p_status travel_policy = ''approved''
      \<and> approve_policy ''2.3.1'' admin_user ''t1'' sample_db =
          (Inl (HTTPException 400 ''Policy is already approved''), sample_db))
   \<and> (filter (\<lambda>r. p_policy_id r = ''1.1.1'') (policies sample_db) = [draft_policy]
      \<and> p_status draft_policy \<noteq> ''approved''
      \<and> snd (approve_policy ''1.1.1'' admin_user ''t1'' sample_db) =
          sample_db\<lparr>policies :=
            [travel_policy,
             draft_policy\<lparr>p_status := ''approved'', p_updated_at := ''t1'',
                          p_updated_by := ''u-1''\<rparr>]\<rparr>)
   \<and> (filter (\<lambda>r. b_id r = ''b-9'') (bylaws sample_db) = []
      \<and> approve_bylaw ''b-9'' admin_user ''t1'' sample_db =
          (Inl (HTTPException 404 ''Bylaw not found''), sample_db))
   \<and> (filter (\<lambda>r. b_id r = ''b-1'') (bylaws sample_db) = [quorum_bylaw]
      \<and> b_status quorum_bylaw = ''approved''
      \<and> approve_bylaw ''b-1'' admin_user ''t1'' sample_db =
          (Inl (HTTPException 400 ''Bylaw is already approved''), sample_db))
   \<and> (filter (\<lambda>r. b_id r = ''b-2'') (bylaws sample_db) = [dues_bylaw]
      \<and> b_status dues_bylaw \<noteq> ''approved''
      \<and> snd (approve_bylaw ''b-2'' admin_user ''t1'' sample_db) =
          sample_db\<lparr>bylaws :=
            [quorum_bylaw,
             dues_bylaw\<lparr>b_status := ''approved'', b_updated_at := ''t1'',
                         b_updated_by := ''u-1''\<rparr>]\<rparr>)"
proof -
  have p1: "filter (\<lambda>r. p_policy_id r = ''9.9.9'') (policies sample_db) = []"
    and p2: "filter (\<lambda>r. p_policy_id r = ''2.3.1'') (policies sample_db) = [travel_policy]"
    and p3: "filter (\<lambda>r. p_policy_id r = ''1.1.1'') (policies sample_db) = [draft_policy]"
    and b1: "filter (\<lambda>r. b_id r = ''b-9'') (bylaws sample_db) = []"
    and b2: "filter (\<lambda>r. b_id r = ''b-1'') (bylaws sample_db) = [quorum_bylaw]"
    and b3: "filter (\<lambda>r. b_id r = ''b-2'') (bylaws sample_db) = [dues_bylaw]"
    by (simp_all add: sample_defs)
  have s: "p_status travel_policy = ''approved''" "p_status draft_policy \<noteq> ''approved''"
    "b_status quorum_bylaw = ''approved''" "b_status dues_bylaw \<noteq> ''approved''"
    by (simp_all add: sample_defs)
  have m: "policies sample_db = [travel_policy, draft_policy]"
    "bylaws sample_db = [quorum_bylaw, dues_bylaw]"
    "p_policy_id travel_policy = ''2.3.1''" "p_policy_id draft_policy = ''1.1.1''"
    "b_id quorum_bylaw = ''b-1''" "b_id dues_bylaw = ''b-2''" "cu_id admin_user = ''u-1''"
    by (simp_all add: sample_defs)
  show ?thesis
    using approve_sets_approved [of "''9.9.9''" sample_db admin_user "''t1''" "''b-9''"]
      approve_sets_approved [of "''2.3.1''" sample_db admin_user "''t1''" "''b-1''"]
      approve_sets_approved [of "''1.1.1''" sample_db admin_user "''t1''" "''b-2''"]
      p1 p2 p3 b1 b2 b3 s
    by (simp add: m)
qed

section \<open>Public fetch of one policy\<close>

text \<open>
  C9. The public fetch by policy code answers 404 for a policy that is stored but not
  approved (a draft), which is the answer it gives when no row carries the code at all.
\<close>

theorem get_approved_policy_by_id_hides_drafts:
  assumes "\<forall>r\<in>set (policies db). p_policy_id r = policy_id \<longrightarrow> p_status r \<noteq> ''approved''"
  shows "get_approved_policy_by_id policy_id db = Inl (HTTPException 404 ''Policy not found'')
       \<and> get_approved_policy_by_id policy_id db =
          get_approved_policy_by_id policy_id
            (db\<lparr>policies := delete_where (\<lambda>r. p_policy_id r = policy_id) (policies db)\<rparr>)"
proof -
  have "filter (\<lambda>r. p_policy_id r = policy_id \<and> p_status r = ''approved'') (policies db) = []"
    using assms by (auto simp: filter_empty_conv)
  moreover have "filter (\<lambda>r. p_policy_id r = policy_id \<and> p_status r = ''approved'')
      (delete_where (\<lambda>r. p_policy_id r = policy_id) (policies db)) = []"
    by (auto simp: filter_empty_conv delete_where_def)
  ultimately show ?thesis by (simp add: get_approved_policy_by_id_def)
qed

theorem get_approved_policy_by_id_hides_drafts_witness:
  "draft_policy \<in> set (policies sample_db) \<and> p_policy_id draft_policy = ''1.1.1''
   \<and> p_status draft_policy = ''draft''
   \<and> map p_status (filter (\<lambda>r. p_policy_id r = ''1.1.1'') (policies sample_db)) = [''draft'']
   \<and> get_approved_policy_by_id ''1.1.1'' sample_db = Inl (HTTPException 404 ''Policy not found'')"
proof -
  have h: "\<forall>r\<in>set (policies sample_db). p_policy_id r = ''1.1.1'' \<longrightarrow> p_status r \<noteq> ''approved''"
    by (simp add: sample_defs)
  show ?thesis
    using get_approved_policy_by_id_hides_drafts [OF h] h by (simp add: sample_defs)
qed

section \<open>The draft ratchet\<close>

lemma find_user_data_tables:
  "policies (snd (find_user_data user db)) = policies db"
  "bylaws (snd (find_user_data user db)) = bylaws db"
  "policy_reviews (snd (find_user_data user db)) = policy_reviews db"
  "suggestions (snd (find_user_data user db)) = suggestions db"
  by (simp_all add: find_user_data_def Let_def)

lemma login_frame:
  "policies (snd (login sign_in login_data db)) = policies db
   \<and> bylaws (snd (login sign_in login_data db)) = bylaws db
   \<and> policy_reviews (snd (login sign_in login_data db)) = policy_reviews db
   \<and> suggestions (snd (login sign_in login_data db)) = suggestions db"
proof (cases "sign_in login_data")
  case (Raises e)
  then show ?thesis by (simp add: login_def)
next
  case (Returns ro)
  show ?thesis
  proof (cases ro)
    case None
    with Returns show ?thesis by (simp add: login_def)
  next
    case (Some ar)
    show ?thesis
    proof (cases "ar_user ar")
      case None
      with Returns Some show ?thesis by (simp add: login_def)
    next
      case u: (Some user)
      show ?thesis
      proof (cases "ar_session ar")
        case None
        with Returns Some u show ?thesis by (simp add: login_def)
      next
        case s: (Some session)
        obtain ud db1 where f: "find_user_data user db = (ud, db1)"
          by (cases "find_user_data user db")
        have t: "policies db1 = policies db" "bylaws db1 = bylaws db"
          "policy_reviews db1 = policy_reviews db" "suggestions db1 = suggestions db"
          using find_user_data_tables[of user db] f by simp_all
        show ?thesis
        proof (cases ud)
          case Nil
          with Returns Some u s f t show ?thesis by (simp add: login_def)
        next
          case (Cons x xs)
          with Returns Some u s f t show ?thesis by (simp add: login_def Let_def)
        qed
      qed
    qed
  qed
qed

lemma login_tables:
  "policies (snd (login sign_in login_data db)) = policies db"
  "bylaws (snd (login sign_in login_data db)) = bylaws db"
  "policy_reviews (snd (login sign_in login_data db)) = policy_reviews db"
  "suggestions (snd (login sign_in login_data db)) = suggestions db"
  using login_frame[of sign_in login_data db] by simp_all

lemma submit_policy_review_tables:
  "policies (snd (submit_policy_review pid review cu new_id now1 now2 db)) = policies db"
  "bylaws (snd (submit_policy_review pid review cu new_id now1 now2 db)) = bylaws db"
  by (simp_all add: submit_policy_review_def Let_def split: option.splits)

lemma reset_all_policy_reviews_tables:
  "policies (snd (reset_all_policy_reviews cu db)) = policies db"
  "bylaws (snd (reset_all_policy_reviews cu db)) = bylaws db"
  by (simp_all add: reset_all_policy_reviews_def Let_def)

lemma create_suggestion_tables:
  "policies (snd (create_suggestion s new_id now1 now2 db)) = policies db"
  "bylaws (snd (create_suggestion s new_id now1 now2 db)) = bylaws db"
  "policy_reviews (snd (create_suggestion s new_id now1 now2 db)) = policy_reviews db"
  by (simp_all add: create_suggestion_def Let_def split: sum.splits)

lemma delete_suggestion_tables:
  "policies (snd (delete_suggestion sid cu db)) = policies db"
  "bylaws (snd (delete_suggestion sid cu db)) = bylaws db"
  "policy_reviews (snd (delete_suggestion sid cu db)) = policy_reviews db"
  by (simp_all add: delete_suggestion_def Let_def)

lemma create_policy_tables:
  "bylaws (snd (create_policy p cu new_id now1 now2 db)) = bylaws db"
  "policy_reviews (snd (create_policy p cu new_id now1 now2 db)) = policy_reviews db"
  by (simp_all add: create_policy_def Let_def)

lemma update_policy_tables:
  "bylaws (snd (update_policy pid upd cu new_id now1 now2 db)) = bylaws db"
  "policy_reviews (snd (update_policy pid upd cu new_id now1 now2 db)) = policy_reviews db"
  by (simp_all add: update_policy_def Let_def updated_rows_def split: list.splits)

lemma delete_policy_tables:
  "bylaws (snd (delete_policy pid cu db)) = bylaws db"
  "policy_reviews (snd (delete_policy pid cu db)) = policy_reviews db"
  by (simp_all add: delete_policy_def Let_def)

lemma approve_policy_tables:
  "bylaws (snd (approve_policy pid cu now1 db)) = bylaws db"
  "policy_reviews (snd (approve_policy pid cu now1 db)) = policy_reviews db"
  by (simp_all add: approve_policy_def Let_def updated_rows_def split: list.splits)

lemma create_bylaw_tables:
  "policies (snd (create_bylaw b cu new_id now1 now2 db)) = policies db"
  "policy_reviews (snd (create_bylaw b cu new_id now1 now2 db)) = policy_reviews db"
  by (simp_all add: create_bylaw_def Let_def)

lemma update_bylaw_tables:
  "policies (snd (update_bylaw bid upd cu now1 db)) = policies db"
  "policy_reviews (snd (update_bylaw bid upd cu now1 db)) = policy_reviews db"
  by (simp_all add: update_bylaw_def Let_def updated_rows_def split: list.splits)

lemma delete_bylaw_tables:
  "policies (snd (delete_bylaw bid cu db)) = policies db"
  "policy_reviews (snd (delete_bylaw bid cu db)) = policy_reviews db"
  by (simp_all add: delete_bylaw_def Let_def)

lemma approve_bylaw_tables:
  "policies (snd (approve_bylaw bid cu now1 db)) = policies db"
  "policy_reviews (snd (approve_bylaw bid cu now1 db)) = policy_reviews db"
  by (simp_all add: approve_bylaw_def Let_def updated_rows_def split: list.splits)

lemma create_policy_approved:
  "r \<in> set (policies (snd (create_policy p cu new_id now1 now2 db))) \<Longrightarrow> p_status r = ''approved''
     \<Longrightarrow> r \<in> set (policies db)"
  by (auto simp: create_policy_def Let_def split: if_splits)

lemma update_policy_policies:
  "policies (snd (update_policy pid upd cu new_id now1 now2 db)) =
     map (\<lambda>r. if p_policy_id r = pid
               then r\<lparr>p_name := or_else (pu_policy_name upd) (p_name r),
                      p_section := or_else (pu_section upd) (p_section r),
                      p_content := or_else (pu_policy_content upd) (p_content r),
                      p_status := ''draft'',
                      p_updated_at := now2,
                      p_updated_by := cu_id cu\<rparr>
               else r) (policies db)"
proof (cases "filter (\<lambda>r. p_policy_id r = pid) (policies db)")
  case Nil
  then have "\<forall>r\<in>set (policies db). p_policy_id r \<noteq> pid" by (simp add: filter_empty_conv)
  then have "map (\<lambda>r. if p_policy_id r = pid
               then r\<lparr>p_name := or_else (pu_policy_name upd) (p_name r),
                      p_section := or_else (pu_section upd) (p_section r),
                      p_content := or_else (pu_policy_content upd) (p_content r),
                      p_status := ''draft'',
                      p_updated_at := now2,
                      p_updated_by := cu_id cu\<rparr>
               else r) (policies db) = policies db"
    by (simp add: map_idI)
  with Nil show ?thesis by (simp add: update_policy_def)
next
  case (Cons e rest)
  then show ?thesis
    by (simp add: update_policy_def Let_def updated_rows_Cons update_where_map
          apply_policy_update_def or_else_def)
qed

lemma update_policy_approved:
  "r \<in> set (policies (snd (update_policy pid upd cu new_id now1 now2 db))) \<Longrightarrow>
     p_status r = ''approved'' \<Longrightarrow> r \<in> set (policies db)"
  by (auto simp: update_policy_policies split: if_splits)

lemma delete_policy_approved:
  "r \<in> set (policies (snd (delete_policy pid cu db))) \<Longrightarrow> r \<in> set (policies db)"
  by (auto simp: delete_policy_def Let_def delete_where_def split: if_splits)

lemma create_bylaw_approved:
  "r \<in> set (bylaws (snd (create_bylaw b cu new_id now1 now2 db))) \<Longrightarrow> b_status r = ''approved''
     \<Longrightarrow> r \<in> set (bylaws db)"
  by (auto simp: create_bylaw_def Let_def split: if_splits)

lemma update_bylaw_bylaws:
  "bylaws (snd (update_bylaw bid upd cu now1 db)) =
     map (\<lambda>r. if b_id r = bid
               then r\<lparr>b_number := or_else (bu_bylaw_number upd) (b_number r),
                      b_title := or_else (bu_bylaw_title upd) (b_title r),
                      b_content := or_else (bu_bylaw_content upd) (b_content r),
                      b_status := ''draft'',
                      b_updated_at := now1,
                      b_updated_by := cu_id cu\<rparr>
               else r) (bylaws db)"
proof (cases "filter (\<lambda>r. b_id r = bid) (bylaws db)")
  case Nil
  then have "\<forall>r\<in>set (bylaws db). b_id r \<noteq> bid" by (simp add: filter_empty_conv)
  then have "map (\<lambda>r. if b_id r = bid
               then r\<lparr>b_number := or_else (bu_bylaw_number upd) (b_number r),
                      b_title := or_else (bu_bylaw_title upd) (b_title r),
                      b_content := or_else (bu_bylaw_content upd) (b_content r),
                      b_status := ''draft'',
                      b_updated_at := now1,
                      b_updated_by := cu_id cu\<rparr>
               else r) (bylaws db) = bylaws db"
    by (simp add: map_idI)
  with Nil show ?thesis by (simp add: update_bylaw_def)
next
  case (Cons e rest)
  then show ?thesis
    by (simp add: update_bylaw_def Let_def updated_rows_Cons update_where_map
          apply_bylaw_update_def or_else_def)
qed

lemma update_bylaw_approved:
  "r \<in> set (bylaws (snd (update_bylaw bid upd cu now1 db))) \<Longrightarrow>
     b_status r = ''approved'' \<Longrightarrow> r \<in> set (bylaws db)"
  by (auto simp: update_bylaw_bylaws split: if_splits)

lemma delete_bylaw_approved:
  "r \<in> set (bylaws (snd (delete_bylaw bid cu db))) \<Longrightarrow> r \<in> set (bylaws db)"
  by (auto simp: delete_bylaw_def Let_def delete_where_def split: if_splits)

lemma perform_policies_approved:
  assumes "\<not> is_approve op" "r \<in> set (policies (perform op db))" "p_status r = ''approved''"
  shows "r \<in> set (policies db)"
  using assms
  by (cases op)
     (auto dest: create_policy_approved update_policy_approved delete_policy_approved
        simp: submit_policy_review_tables reset_all_policy_reviews_tables create_bylaw_tables
        update_bylaw_tables delete_bylaw_tables create_suggestion_tables
        delete_suggestion_tables login_tables)

lemma perform_bylaws_approved:
  assumes "\<not> is_approve op" "r \<in> set (bylaws (perform op db))" "b_status r = ''approved''"
  shows "r \<in> set (bylaws db)"
  using assms
  by (cases op)
     (auto dest: create_bylaw_approved update_bylaw_approved delete_bylaw_approved
        simp: submit_policy_review_tables reset_all_policy_reviews_tables create_policy_tables
        update_policy_tables delete_policy_tables create_suggestion_tables
        delete_suggestion_tables login_tables)

lemma run_policies_approved:
  "\<forall>op\<in>set ops. \<not> is_approve op \<Longrightarrow> r \<in> set (policies (run ops db)) \<Longrightarrow>
     p_status r = ''approved'' \<Longrightarrow> r \<in> set (policies db)"
proof (induction ops arbitrary: db)
  case Nil
  then show ?case by simp
next
  case (Cons op ops)
  from Cons.prems have 1: "\<not> is_approve op" and 2: "\<forall>op\<in>set ops. \<not> is_approve op"
    by simp_all
  from Cons.prems have "r \<in> set (policies (run ops (perform op db)))" by simp
  with Cons.IH 2 Cons.prems(3) have "r \<in> set (policies (perform op db))" by blast
  with 1 Cons.prems(3) show ?case by (blast intro: perform_policies_approved)
qed

lemma run_bylaws_approved:
  "\<forall>op\<in>set ops. \<not> is_approve op \<Longrightarrow> r \<in> set (bylaws (run ops db)) \<Longrightarrow>
     b_status r = ''approved'' \<Longrightarrow> r \<in> set (bylaws db)"
proof (induction ops arbitrary: db)
  case Nil
  then show ?case by simp
next
  case (Cons op ops)
  from Cons.prems have 1: "\<not> is_approve op" and 2: "\<forall>op\<in>set ops. \<not> is_approve op"
    by simp_all
  from Cons.prems have "r \<in> set (bylaws (run ops (perform op db)))" by simp
  with Cons.IH 2 Cons.prems(3) have "r \<in> set (bylaws (perform op db))" by blast
  with 1 Cons.prems(3) show ?case by (blast intro: perform_bylaws_approved)
qed

lemma update_policy_response_draft:
  assumes "fst (update_policy pid upd cu new_id now1 now2 db) = Inr d"
  shows "d ''status'' = Some ''draft''"
proof (cases "filter (\<lambda>r. p_policy_id r = pid) (policies db)")
  case Nil
  with assms show ?thesis by (simp add: update_policy_def)
next
  case (Cons e rest)
  with assms have "d = convert_policy_from_db
      (apply_policy_update
         \<lparr>ud_name = pu_policy_name upd, ud_section = pu_section upd,
          ud_content = pu_policy_content upd, ud_status = Some ''draft'',
          ud_updated_at = Some now2, ud_updated_by = Some (cu_id cu)\<rparr> e)"
    by (simp add: update_policy_def Let_def updated_rows_Cons)
  then show ?thesis
    by (simp add: convert_policy_from_db_def apply_policy_update_def or_else_def)
qed

lemma update_policy_stored_draft:
  assumes "r \<in> set (policies (snd (update_policy pid upd cu new_id now1 now2 db)))"
    and "p_policy_id r = pid"
  shows "p_status r = ''draft''"
proof -
  let ?f = "\<lambda>r0. if p_policy_id r0 = pid
          then r0\<lparr>p_name := or_else (pu_policy_name upd) (p_name r0),
                  p_section := or_else (pu_section upd) (p_section r0),
                  p_content := or_else (pu_policy_content upd) (p_content r0),
                  p_status := ''draft'',
                  p_updated_at := now2,
                  p_updated_by := cu_id cu\<rparr>
          else r0"
  from assms(1) have "r \<in> ?f ` set (policies db)"
    by (simp only: update_policy_policies set_map)
  then obtain r0 where "r = ?f r0" by blast
  with assms(2) show ?thesis by (cases "p_policy_id r0 = pid") simp_all
qed

lemma update_bylaw_stored_draft:
  assumes "r \<in> set (bylaws (snd (update_bylaw bid upd cu now1 db)))"
    and "b_id r = bid"
  shows "b_status r = ''draft''"
proof -
  let ?f = "\<lambda>r0. if b_id r0 = bid
          then r0\<lparr>b_number := or_else (bu_bylaw_number upd) (b_number r0),
                  b_title := or_else (bu_bylaw_title upd) (b_title r0),
                  b_content := or_else (bu_bylaw_content upd) (b_content r0),
                  b_status := ''draft'',
                  b_updated_at := now1,
                  b_updated_by := cu_id cu\<rparr>
          else r0"
  from assms(1) have "r \<in> ?f ` set (bylaws db)"
    by (simp only: update_bylaw_bylaws set_map)
  then obtain r0 where "r = ?f r0" by blast
  with assms(2) show ?thesis by (cases "b_id r0 = bid") simp_all
qed

lemma update_bylaw_response_draft:
  assumes "fst (update_bylaw bid upd cu now1 db) = Inr b"
  shows "br_status b = ''draft''"
proof (cases "filter (\<lambda>r. b_id r = bid) (bylaws db)")
  case Nil
  with assms show ?thesis by (simp add: update_bylaw_def)
next
  case (Cons e rest)
  with assms have "b = convert_bylaw_from_db
      (apply_bylaw_update
         \<lparr>bud_number = bu_bylaw_number upd, bud_title = bu_bylaw_title upd,
          bud_content = bu_bylaw_content upd, bud_status = Some ''draft'',
          bud_updated_at = Some now1, bud_updated_by = Some (cu_id cu)\<rparr> e)"
    by (simp add: update_bylaw_def Let_def updated_rows_Cons)
  then show ?thesis
    by (simp add: convert_bylaw_from_db_def apply_bylaw_update_def or_else_def)
qed

text \<open>
  C3. A successful update of a policy or of a bylaw leaves the entity with status
  \<open>draft\<close>, in the response and in the store, whatever fields the request supplied
  (a supplied status included) and whatever the status was before. Over any sequence of
  requests that contains no approve request, every row that is approved at the end was
  already stored, identical and approved, at the start: only approve sets that status.
\<close>

theorem update_forces_draft:
  "(\<forall>d. fst (update_policy policy_id upd cu new_id now1 now2 db) = Inr d \<longrightarrow>
       d ''status'' = Some ''draft''
       \<and> (\<forall>r\<in>set (policies (snd (update_policy policy_id upd cu new_id now1 now2 db))).
             p_policy_id r = policy_id \<longrightarrow> p_status r = ''draft''))
   \<and> (\<forall>b. fst (update_bylaw bylaw_id bupd cu now1 db) = Inr b \<longrightarrow>
       br_status b = ''draft''
       \<and> (\<forall>r\<in>set (bylaws (snd (update_bylaw bylaw_id bupd cu now1 db))).
             b_id r = bylaw_id \<longrightarrow> b_status r = ''draft''))
   \<and> ((\<forall>op\<in>set ops. \<not> is_approve op) \<longrightarrow>
       (\<forall>r\<in>set (policies (run ops db)). p_status r = ''approved'' \<longrightarrow> r \<in> set (policies db))
       \<and> (\<forall>r\<in>set (bylaws (run ops db)). b_status r = ''approved'' \<longrightarrow> r \<in> set (bylaws db)))"
proof -
  have 1: "\<forall>d. fst (update_policy policy_id upd cu new_id now1 now2 db) = Inr d \<longrightarrow>
       d ''status'' = Some ''draft''
       \<and> (\<forall>r\<in>set (policies (snd (update_policy policy_id upd cu new_id now1 now2 db))).
             p_policy_id r = policy_id \<longrightarrow> p_status r = ''draft'')"
    using update_policy_response_draft update_policy_stored_draft by blast
  have 2: "\<forall>b. fst (update_bylaw bylaw_id bupd cu now1 db) = Inr b \<longrightarrow>
       br_status b = ''draft''
       \<and> (\<forall>r\<in>set (bylaws (snd (update_bylaw bylaw_id bupd cu now1 db))).
             b_id r = bylaw_id \<longrightarrow> b_status r = ''draft'')"
    using update_bylaw_response_draft update_bylaw_stored_draft by blast
  have 3: "(\<forall>op\<in>set ops. \<not> is_approve op) \<longrightarrow>
       (\<forall>r\<in>set (policies (run ops db)). p_status r = ''approved'' \<longrightarrow> r \<in> set (policies db))
       \<and> (\<forall>r\<in>set (bylaws (run ops db)). b_status r = ''approved'' \<longrightarrow> r \<in> set (bylaws db))"
    using run_policies_approved run_bylaws_approved by blast
  from 1 2 3 show ?thesis by (intro conjI)
qed

theorem update_forces_draft_witness:
  "fst (update_policy ''2.3.1'' content_update admin_user ''v-2'' ''t1'' ''t2'' sample_db) =
     Inr (convert_policy_from_db
            (travel_policy\<lparr>p_content := ''New text'', p_status := ''draft'',
                           p_updated_at := ''t2'', p_updated_by := ''u-1''\<rparr>))
   \<and> p_status travel_policy = ''approved''
   \<and> pu_status content_update = Some APPROVED
   \<and> map p_status
        (policies (snd (update_policy ''2.3.1'' content_update admin_user ''v-2'' ''t1'' ''t2''
                          sample_db))) = [''draft'', ''draft'']
   \<and> fst (update_bylaw ''b-1'' title_update admin_user ''t1'' sample_db) =
     Inr (convert_bylaw_from_db
            (quorum_bylaw\<lparr>b_title := ''Quorum rules'', b_status := ''draft'',
                          b_updated_at := ''t1'', b_updated_by := ''u-1''\<rparr>))
   \<and> b_status quorum_bylaw = ''approved''
   \<and> map b_status (bylaws (snd (update_bylaw ''b-1'' title_update admin_user ''t1'' sample_db))) =
       [''draft'', ''draft'']
   \<and> filter is_approve sample_ops = []
   \<and> map p_status (policies (run sample_ops sample_db)) = [''draft'', ''draft'']
   \<and> map b_status (bylaws (run sample_ops sample_db)) = [''draft'', ''draft'']"
proof -
  have na: "\<forall>op\<in>set sample_ops. \<not> is_approve op"
    by (simp add: sample_ops_def)
  have up: "update_policy ''2.3.1'' content_update admin_user ''v-2'' ''t1'' ''t2'' sample_db =
     (Inr (convert_policy_from_db
            (travel_policy\<lparr>p_content := ''New text'', p_status := ''draft'',
                           p_updated_at := ''t2'', p_updated_by := ''u-1''\<rparr>)),
      sample_db\<lparr>policy_versions := [travel_version,
          \<lparr>v_id = ''v-2'', v_policy_id = ''p-1'', v_version_number = 2, v_name = ''Travel'',
           v_section = ''2'', v_content = ''Old text'', v_status = ''approved'',
           v_created_at = ''t1'', v_created_by = ''u-1''\<rparr>],
        policies := [travel_policy\<lparr>p_content := ''New text'', p_status := ''draft'',
                           p_updated_at := ''t2'', p_updated_by := ''u-1''\<rparr>, draft_policy]\<rparr>)"
    by (simp add: update_policy_def Let_def updated_rows_def update_where_def
          apply_policy_update_def or_else_def content_update_def next_version_def order_desc_def
          sample_defs)
  have ub: "\<And>db. bylaws db = [quorum_bylaw, dues_bylaw] \<Longrightarrow>
     update_bylaw ''b-1'' title_update admin_user ''t1'' db =
     (Inr (convert_bylaw_from_db
            (quorum_bylaw\<lparr>b_title := ''Quorum rules'', b_status := ''draft'',
                          b_updated_at := ''t1'', b_updated_by := ''u-1''\<rparr>)),
      db\<lparr>bylaws := [quorum_bylaw\<lparr>b_title := ''Quorum rules'', b_status := ''draft'',
                          b_updated_at := ''t1'', b_updated_by := ''u-1''\<rparr>, dues_bylaw]\<rparr>)"
    by (simp add: update_bylaw_def Let_def updated_rows_def update_where_def
          apply_bylaw_update_def or_else_def title_update_def quorum_bylaw_def dues_bylaw_def
          admin_user_def)
  have sb: "bylaws sample_db = [quorum_bylaw, dues_bylaw]" by (simp add: sample_db_def)
  have st: "p_status travel_policy = ''approved''" "b_status quorum_bylaw = ''approved''"
    "p_status draft_policy = ''draft''" "b_status dues_bylaw = ''draft''"
    "pu_status content_update = Some APPROVED"
    by (simp_all add: sample_defs content_update_def)
  show ?thesis
    using update_forces_draft [of "''2.3.1''" content_update admin_user "''v-2''" "''t1''" "''t2''"
        sample_db "''b-1''" title_update sample_ops] na
    by (simp add: up ub sb st sample_ops_def)
qed

section \<open>Creation\<close>

text \<open>
  C4, as stated, at a concrete request: the handler reads the clock once for
  \<open>created_at\<close> and once more for \<open>updated_at\<close>. When the two readings differ, the
  stored row has \<open>created_at \<noteq> updated_at\<close>.
\<close>

theorem create_policy_timestamps_counterexample:
  "snd (create_policy travel_create admin_user ''p-1''
          ''2026-01-15T10:00:00.000001'' ''2026-01-15T10:00:00.000002'' empty_db) =
     empty_db\<lparr>policies :=
       [\<lparr>p_id = ''p-1'', p_policy_id = ''2.3.1'', p_name = ''Travel'', p_section = ''2'',
         p_content = ''Text'', p_status = ''draft'',
         p_created_at = ''2026-01-15T10:00:00.000001'',
         p_updated_at = ''2026-01-15T10:00:00.000002'',
         p_created_by = ''u-1'', p_updated_by = ''u-1''\<rparr>]\<rparr>
   \<and> ''2026-01-15T10:00:00.000001'' \<noteq> ''2026-01-15T10:00:00.000002''"
  by (simp add: create_policy_def Let_def travel_create_def admin_user_def empty_db_def)

text \<open>
  C4, amended. Creating a policy or bylaw fails with HTTP 400, leaving the store as it
  was, when the policy code or bylaw number is already stored. Otherwise exactly one row
  is appended: its status is \<open>draft\<close> whatever status the request carried, \<open>created_by\<close>
  and \<open>updated_by\<close> are the acting user's id, \<open>created_at\<close> is the first clock reading
  and \<open>updated_at\<close> the second.
\<close>

theorem create_forces_draft:
  "(filter (\<lambda>r. p_policy_id r = pc_policy_id policy) (policies db) \<noteq> [] \<longrightarrow>
      create_policy policy cu new_id now1 now2 db =
        (Inl (HTTPException 400 ''Policy ID already exists''), db))
   \<and> (filter (\<lambda>r. p_policy_id r = pc_policy_id policy) (policies db) = [] \<longrightarrow>
      create_policy policy cu new_id now1 now2 db =
        (Inr (convert_policy_from_db
                \<lparr>p_id = new_id, p_policy_id = pc_policy_id policy,
                 p_name = pc_policy_name policy, p_section = pc_section policy,
                 p_content = pc_policy_content policy, p_status = ''draft'',
                 p_created_at = now1, p_updated_at = now2,
                 p_created_by = cu_id cu, p_updated_by = cu_id cu\<rparr>),
         db\<lparr>policies := policies db @
              [\<lparr>p_id = new_id, p_policy_id = pc_policy_id policy,
                p_name = pc_policy_name policy, p_section = pc_section policy,
                p_content = pc_policy_content policy, p_status = ''draft'',
                p_created_at = now1, p_updated_at = now2,
                p_created_by = cu_id cu, p_updated_by = cu_id cu\<rparr>]\<rparr>))
   \<and> (filter (\<lambda>r. b_number r = bc_bylaw_number bylaw) (bylaws db) \<noteq> [] \<longrightarrow>
      create_bylaw bylaw cu new_id now1 now2 db =
        (Inl (HTTPException 400 ''Bylaw number already exists''), db))
   \<and> (filter (\<lambda>r. b_number r = bc_bylaw_number bylaw) (bylaws db) = [] \<longrightarrow>
      create_bylaw bylaw cu new_id now1 now2 db =
        (Inr (convert_bylaw_from_db
                \<lparr>b_id = new_id, b_number = bc_bylaw_number bylaw,
                 b_title = bc_bylaw_title bylaw, b_content = bc_bylaw_content bylaw,
                 b_status = ''draft'', b_created_at = now1, b_updated_at = now2,
                 b_created_by = cu_id cu, b_updated_by = cu_id cu\<rparr>),
         db\<lparr>bylaws := bylaws db @
              [\<lparr>b_id = new_id, b_number = bc_bylaw_number bylaw,
                b_title = bc_bylaw_title bylaw, b_content = bc_bylaw_content bylaw,
                b_status = ''draft'', b_created_at = now1, b_updated_at = now2,
                b_created_by = cu_id cu, b_updated_by = cu_id cu\<rparr>]\<rparr>))"
  by (simp add: create_policy_def create_bylaw_def Let_def)

theorem create_forces_draft_witness:
  "(filter (\<lambda>r. p_policy_id r = pc_policy_id travel_create) (policies sample_db) \<noteq> []
      \<and> create_policy travel_create admin_user ''n-3'' ''t1'' ''t2'' sample_db =
          (Inl (HTTPException 400 ''Policy ID already exists''), sample_db))
   \<and> (filter (\<lambda>r. p_policy_id r = pc_policy_id travel_create) (policies empty_db) = []
      \<and> pc_status travel_create = APPROVED
      \<and> policies (snd (create_policy travel_create admin_user ''n-3'' ''t1'' ''t2'' empty_db)) =
          [\<lparr>p_id = ''n-3'', p_policy_id = ''2.3.1'', p_name = ''Travel'', p_section = ''2'',
            p_content = ''Text'', p_status = ''draft'', p_created_at = ''t1'',
            p_updated_at = ''t2'', p_created_by = ''u-1'', p_updated_by = ''u-1''\<rparr>])
   \<and> (filter (\<lambda>r. b_number r = bc_bylaw_number quorum_create) (bylaws sample_db) \<noteq> []
      \<and> create_bylaw quorum_create admin_user ''n-3'' ''t1'' ''t2'' sample_db =
          (Inl (HTTPException 400 ''Bylaw number already exists''), sample_db))
   \<and> (filter (\<lambda>r. b_number r = bc_bylaw_number quorum_create) (bylaws empty_db) = []
      \<and> bc_status quorum_create = APPROVED
      \<and> bylaws (snd (create_bylaw quorum_create admin_user ''n-3'' ''t1'' ''t2'' empty_db)) =
          [\<lparr>b_id = ''n-3'', b_number = 7, b_title = ''Quorum'', b_content = ''Ten members'',
            b_status = ''draft'', b_created_at = ''t1'', b_updated_at = ''t2'',
            b_created_by = ''u-1'', b_updated_by = ''u-1''\<rparr>])"
proof -
  have h: "filter (\<lambda>r. p_policy_id r = pc_policy_id travel_create) (policies sample_db) \<noteq> []"
    "filter (\<lambda>r. p_policy_id r = pc_policy_id travel_create) (policies empty_db) = []"
    "filter (\<lambda>r. b_number r = bc_bylaw_number quorum_create) (bylaws sample_db) \<noteq> []"
    "filter (\<lambda>r. b_number r = bc_bylaw_number quorum_create) (bylaws empty_db) = []"
    by (simp_all add: sample_defs empty_db_def travel_create_def quorum_create_def)
  have v: "pc_policy_id travel_create = ''2.3.1''" "pc_policy_name travel_create = ''Travel''"
    "pc_section travel_create = ''2''" "pc_policy_content travel_create = ''Text''"
    "pc_status travel_create = APPROVED" "bc_bylaw_number quorum_create = 7"
    "bc_bylaw_title quorum_create = ''Quorum''" "bc_bylaw_content quorum_create = ''Ten members''"
    "bc_status quorum_create = APPROVED" "cu_id admin_user = ''u-1''"
    "policies empty_db = []" "bylaws empty_db = []"
    by (simp_all add: travel_create_def quorum_create_def admin_user_def empty_db_def)
  show ?thesis
    using create_forces_draft [of travel_create sample_db admin_user "''n-3''" "''t1''" "''t2''"
            quorum_create]
      create_forces_draft [of travel_create empty_db admin_user "''n-3''" "''t1''" "''t2''"
            quorum_create] h
    by (simp add: v)
qed

section \<open>Suggestion targets\<close>












section \<open>Review submission\<close>

text \<open>
  C7, as stated, at a concrete request: an identity without an email, whose users row has
  no email either, is answered with HTTP 400, not 401.
\<close>

theorem submit_policy_review_no_email_counterexample:
  "resolve_user_email no_email_user anonymous_db = None
   \<and> submit_policy_review ''2.3.1'' confirm_review (Some no_email_user) ''r-1'' ''t1'' ''t2''
        anonymous_db =
      (Inl (HTTPException 400 ''User email not found''), anonymous_db)
   \<and> status_code (HTTPException 400 ''User email not found'') \<noteq> 401"
  by (simp add: submit_policy_review_def resolve_user_email_def Let_def no_email_user_def
        anonymous_db_def sample_db_def)

lemma submit_policy_review_Inl:
  assumes "fst (submit_policy_review pid review cuo new_id now1 now2 db) = Inl e"
  shows "snd (submit_policy_review pid review cuo new_id now1 now2 db) = db"
  using assms
  by (auto simp: submit_policy_review_def Let_def split: option.splits if_splits)

text \<open>
  C7, amended. Submitting a review fails with 401 when no identity is supplied; with 400
  when the identity has no email and the users table does not supply one; with 404 when
  the email resolves and the policy code does not. Whenever the request fails, the store
  is left as it was, so no review row is written.
\<close>

theorem submit_policy_review_failures:
  "submit_policy_review pid review None new_id now1 now2 db =
     (Inl (HTTPException 401 ''Authentication required''), db)
   \<and> (\<not> truthy (resolve_user_email cu db) \<longrightarrow>
        submit_policy_review pid review (Some cu) new_id now1 now2 db =
          (Inl (HTTPException 400 ''User email not found''), db))
   \<and> (truthy (resolve_user_email cu db)
        \<and> filter (\<lambda>r. p_policy_id r = pid) (policies db) = [] \<longrightarrow>
        submit_policy_review pid review (Some cu) new_id now1 now2 db =
          (Inl (HTTPException 404 ''Policy not found''), db))
   \<and> (\<forall>e. fst (submit_policy_review pid review cuo new_id now1 now2 db) = Inl e \<longrightarrow>
        snd (submit_policy_review pid review cuo new_id now1 now2 db) = db)"
proof -
  have 1: "submit_policy_review pid review None new_id now1 now2 db =
     (Inl (HTTPException 401 ''Authentication required''), db)"
    by (simp add: submit_policy_review_def)
  have 2: "\<not> truthy (resolve_user_email cu db) \<longrightarrow>
        submit_policy_review pid review (Some cu) new_id now1 now2 db =
          (Inl (HTTPException 400 ''User email not found''), db)"
    by (cases "resolve_user_email cu db") (simp_all add: submit_policy_review_def)
  have 3: "truthy (resolve_user_email cu db)
        \<and> filter (\<lambda>r. p_policy_id r = pid) (policies db) = [] \<longrightarrow>
        submit_policy_review pid review (Some cu) new_id now1 now2 db =
          (Inl (HTTPException 404 ''Policy not found''), db)"
    by (cases "resolve_user_email cu db") (simp_all add: submit_policy_review_def)
  have 4: "\<forall>e. fst (submit_policy_review pid review cuo new_id now1 now2 db) = Inl e \<longrightarrow>
        snd (submit_policy_review pid review cuo new_id now1 now2 db) = db"
    using submit_policy_review_Inl by blast
  from 1 2 3 4 show ?thesis by (intro conjI)
qed

theorem submit_policy_review_failures_witness:
  "submit_policy_review ''2.3.1'' confirm_review None ''r-1'' ''t1'' ''t2'' sample_db =
     (Inl (HTTPException 401 ''Authentication required''), sample_db)
   \<and> (\<not> truthy (resolve_user_email no_email_user sample_db)
      \<and> submit_policy_review ''2.3.1'' confirm_review (Some no_email_user) ''r-1'' ''t1'' ''t2''
           sample_db =
         (Inl (HTTPException 400 ''User email not found''), sample_db))
   \<and> (truthy (resolve_user_email member_user sample_db)
      \<and> filter (\<lambda>r. p_policy_id r = ''9.9.9'') (policies sample_db) = []
      \<and> submit_policy_review ''9.9.9'' confirm_review (Some member_user) ''r-1'' ''t1'' ''t2''
           sample_db =
         (Inl (HTTPException 404 ''Policy not found''), sample_db))
   \<and> (fst (submit_policy_review ''9.9.9'' confirm_review (Some member_user) ''r-1'' ''t1'' ''t2''
              sample_db) = Inl (HTTPException 404 ''Policy not found'')
      \<and> snd (submit_policy_review ''9.9.9'' confirm_review (Some member_user) ''r-1'' ''t1'' ''t2''
              sample_db) = sample_db)"
proof -
  have a: "\<not> truthy (resolve_user_email no_email_user sample_db)"
    by (simp add: resolve_user_email_def Let_def no_email_user_def sample_db_def)
  have b: "truthy (resolve_user_email member_user sample_db)"
    by (simp add: resolve_user_email_def Let_def member_user_def)
  have c: "filter (\<lambda>r. p_policy_id r = ''9.9.9'') (policies sample_db) = []"
    by (simp add: sample_defs)
  show ?thesis
    using submit_policy_review_failures
            [of "''2.3.1''" confirm_review "''r-1''" "''t1''" "''t2''" sample_db no_email_user None]
      submit_policy_review_failures
            [of "''9.9.9''" confirm_review "''r-1''" "''t1''" "''t2''" sample_db member_user
               "Some member_user"]
      a b c
    by simp
qed

lemma distinct_map_filter_le1:
  "distinct (map f xs) \<Longrightarrow> length (filter (\<lambda>x. f x = k) xs) \<le> 1"
proof (induction xs)
  case Nil
  then show ?case by simp
next
  case (Cons x xs)
  show ?case
  proof (cases "f x = k")
    case True
    with Cons.prems have "\<forall>y\<in>set xs. f y \<noteq> k" by (auto simp: image_iff)
    then have "filter (\<lambda>x. f x = k) xs = []" by (simp add: filter_empty_conv)
    with True show ?thesis by simp
  next
    case False
    with Cons show ?thesis by simp
  qed
qed

lemma map_update_where_key:
  assumes "\<And>r. P r \<Longrightarrow> f (g r) = f r"
  shows "map f (update_where P g rows) = map f rows"
  using assms by (induction rows) (simp_all add: update_where_def)

lemma filter_update_where:
  assumes "\<And>r. P r \<Longrightarrow> P (g r)"
  shows "filter P (update_where P g rows) = map g (filter P rows)"
  using assms by (induction rows) (simp_all add: update_where_def)

lemma submit_policy_review_reviews:
  assumes "resolve_user_email cu db = Some e" "e \<noteq> []"
    and "filter (\<lambda>r. p_policy_id r = pid) (policies db) \<noteq> []"
  shows "submit_policy_review pid review (Some cu) new_id now1 now2 db =
     (Inr ''Review submitted successfully'',
      db\<lparr>policy_reviews :=
        (if filter (\<lambda>r. r_policy_id r = pid \<and> r_user_email r = e) (policy_reviews db) \<noteq> []
         then update_where (\<lambda>r. r_policy_id r = pid \<and> r_user_email r = e)
                (\<lambda>r. r\<lparr>r_review_status := ReviewStatus_value (rc_review_status review),
                        r_updated_at := now1\<rparr>)
                (policy_reviews db)
         else policy_reviews db @
                [\<lparr>r_id = new_id, r_policy_id = pid, r_user_email = e,
                  r_review_status = ReviewStatus_value (rc_review_status review),
                  r_created_at = now2, r_updated_at = now1\<rparr>])\<rparr>)"
proof -
  have "update_where (\<lambda>r. r_policy_id r = pid \<and> r_user_email r = e)
          (\<lambda>r. r\<lparr>r_policy_id := pid, r_user_email := e,
                  r_review_status := ReviewStatus_value (rc_review_status review),
                  r_updated_at := now1\<rparr>) (policy_reviews db)
      = update_where (\<lambda>r. r_policy_id r = pid \<and> r_user_email r = e)
          (\<lambda>r. r\<lparr>r_review_status := ReviewStatus_value (rc_review_status review),
                  r_updated_at := now1\<rparr>) (policy_reviews db)"
    unfolding update_where_def by (rule map_cong) auto
  with assms show ?thesis
    by (simp add: submit_policy_review_def Let_def)
qed

lemma submit_policy_review_unchanged:
  assumes "\<not> (\<exists>cu e. cuo = Some cu \<and> resolve_user_email cu db = Some e \<and> e \<noteq> []
              \<and> filter (\<lambda>r. p_policy_id r = pid) (policies db) \<noteq> [])"
  shows "snd (submit_policy_review pid review cuo new_id now1 now2 db) = db"
  using assms
  by (auto simp: submit_policy_review_def Let_def split: option.splits)

lemma submit_policy_review_unique:
  assumes "reviews_unique db"
  shows "reviews_unique (snd (submit_policy_review pid review cuo new_id now1 now2 db))"
proof (cases "\<exists>cu e. cuo = Some cu \<and> resolve_user_email cu db = Some e \<and> e \<noteq> []
              \<and> filter (\<lambda>r. p_policy_id r = pid) (policies db) \<noteq> []")
  case False
  then show ?thesis using assms by (simp add: submit_policy_review_unchanged)
next
  case True
  then obtain cu e where c: "cuo = Some cu" "resolve_user_email cu db = Some e" "e \<noteq> []"
    "filter (\<lambda>r. p_policy_id r = pid) (policies db) \<noteq> []" by blast
  let ?P = "\<lambda>r. r_policy_id r = pid \<and> r_user_email r = e"
  show ?thesis
  proof (cases "filter ?P (policy_reviews db) = []")
    case True
    then have "(pid, e) \<notin> set (map review_key (policy_reviews db))"
      by (auto simp: filter_empty_conv review_key_def)
    with True assms c show ?thesis
      by (simp add: submit_policy_review_reviews reviews_unique_def review_key_def)
  next
    case False
    have "map review_key
            (update_where ?P
               (\<lambda>r. r\<lparr>r_review_status := ReviewStatus_value (rc_review_status review),
                       r_updated_at := now1\<rparr>) (policy_reviews db))
          = map review_key (policy_reviews db)"
      by (rule map_update_where_key) (simp add: review_key_def)
    with False assms c show ?thesis
      by (simp add: submit_policy_review_reviews reviews_unique_def)
  qed
qed

lemma reset_all_policy_reviews_unique:
  assumes "reviews_unique db"
  shows "reviews_unique (snd (reset_all_policy_reviews cu db))"
  using assms
  by (simp add: reset_all_policy_reviews_def Let_def reviews_unique_def delete_where_def
        distinct_map_filter)

lemma perform_reviews_unique:
  assumes "reviews_unique db"
  shows "reviews_unique (perform op db)"
proof (cases op)
  case (SubmitPolicyReview pid review cuo new_id now1 now2)
  with assms show ?thesis by (simp add: submit_policy_review_unique)
next
  case (ResetAllPolicyReviews cu)
  with assms show ?thesis by (simp add: reset_all_policy_reviews_unique)
qed (use assms in \<open>simp_all add: reviews_unique_def create_policy_tables update_policy_tables
       delete_policy_tables approve_policy_tables create_bylaw_tables update_bylaw_tables
       delete_bylaw_tables approve_bylaw_tables create_suggestion_tables
       delete_suggestion_tables login_tables\<close>)

lemma run_reviews_unique:
  "reviews_unique db \<Longrightarrow> reviews_unique (run ops db)"
  by (induction ops arbitrary: db) (simp_all add: perform_reviews_unique)

text \<open>
  C6. Starting from a store with at most one review row per (policy, email) pair, any
  sequence of requests leaves at most one row for every pair. A submission that finds the
  pair's row overwrites its status and \<open>updated_at\<close> and changes nothing else (the
  number of rows, the row's key and its \<open>created_at\<close> stay); a submission that finds no
  row appends one, with \<open>created_at\<close> set.
\<close>

theorem submit_policy_review_upsert:
  assumes "reviews_unique db"
  shows "reviews_unique (run ops db)
   \<and> length (filter (\<lambda>r. r_policy_id r = pid \<and> r_user_email r = e)
               (policy_reviews (run ops db))) \<le> 1
   \<and> (resolve_user_email cu db = Some e \<and> e \<noteq> []
        \<and> filter (\<lambda>r. p_policy_id r = pid) (policies db) \<noteq> [] \<longrightarrow>
      fst (submit_policy_review pid review (Some cu) new_id now1 now2 db) =
        Inr ''Review submitted successfully''
      \<and> (\<forall>old. filter (\<lambda>r. r_policy_id r = pid \<and> r_user_email r = e) (policy_reviews db) = [old]
            \<longrightarrow>
          policy_reviews (snd (submit_policy_review pid review (Some cu) new_id now1 now2 db)) =
            map (\<lambda>r. if r_policy_id r = pid \<and> r_user_email r = e
                      then r\<lparr>r_review_status := ReviewStatus_value (rc_review_status review),
                             r_updated_at := now1\<rparr>
                      else r) (policy_reviews db)
          \<and> filter (\<lambda>r. r_policy_id r = pid \<and> r_user_email r = e)
               (policy_reviews
                 (snd (submit_policy_review pid review (Some cu) new_id now1 now2 db))) =
             [old\<lparr>r_review_status := ReviewStatus_value (rc_review_status review),
                   r_updated_at := now1\<rparr>])
      \<and> (filter (\<lambda>r. r_policy_id r = pid \<and> r_user_email r = e) (policy_reviews db) = []
            \<longrightarrow>
          policy_reviews (snd (submit_policy_review pid review (Some cu) new_id now1 now2 db)) =
            policy_reviews db @
              [\<lparr>r_id = new_id, r_policy_id = pid, r_user_email = e,
                r_review_status = ReviewStatus_value (rc_review_status review),
                r_created_at = now2, r_updated_at = now1\<rparr>]))"
proof -
  let ?P = "\<lambda>r. r_policy_id r = pid \<and> r_user_email r = e"
  let ?g = "\<lambda>r. r\<lparr>r_review_status := ReviewStatus_value (rc_review_status review),
                    r_updated_at := now1\<rparr>"
  have u: "reviews_unique (run ops db)"
    using assms by (rule run_reviews_unique)
  have "length (filter (\<lambda>r. review_key r = (pid, e)) (policy_reviews (run ops db))) \<le> 1"
    using u unfolding reviews_unique_def by (rule distinct_map_filter_le1)
  then have l: "length (filter ?P (policy_reviews (run ops db))) \<le> 1"
    by (simp add: review_key_def)
  have s: "resolve_user_email cu db = Some e \<and> e \<noteq> []
        \<and> filter (\<lambda>r. p_policy_id r = pid) (policies db) \<noteq> [] \<longrightarrow>
      fst (submit_policy_review pid review (Some cu) new_id now1 now2 db) =
        Inr ''Review submitted successfully''
      \<and> (\<forall>old. filter ?P (policy_reviews db) = [old] \<longrightarrow>
          policy_reviews (snd (submit_policy_review pid review (Some cu) new_id now1 now2 db)) =
            map (\<lambda>r. if ?P r then ?g r else r) (policy_reviews db)
          \<and> filter ?P
               (policy_reviews
                 (snd (submit_policy_review pid review (Some cu) new_id now1 now2 db))) =
             [?g old])
      \<and> (filter ?P (policy_reviews db) = [] \<longrightarrow>
          policy_reviews (snd (submit_policy_review pid review (Some cu) new_id now1 now2 db)) =
            policy_reviews db @
              [\<lparr>r_id = new_id, r_policy_id = pid, r_user_email = e,
                r_review_status = ReviewStatus_value (rc_review_status review),
                r_created_at = now2, r_updated_at = now1\<rparr>])"
  proof (intro impI, elim conjE)
    assume a: "resolve_user_email cu db = Some e" "e \<noteq> []"
      "filter (\<lambda>r. p_policy_id r = pid) (policies db) \<noteq> []"
    note eq = submit_policy_review_reviews [OF a, of review new_id now1 now2]
    have f: "filter ?P (update_where ?P ?g (policy_reviews db)) = map ?g (filter ?P (policy_reviews db))"
      by (rule filter_update_where) simp
    show "fst (submit_policy_review pid review (Some cu) new_id now1 now2 db) =
        Inr ''Review submitted successfully''
      \<and> (\<forall>old. filter ?P (policy_reviews db) = [old] \<longrightarrow>
          policy_reviews (snd (submit_policy_review pid review (Some cu) new_id now1 now2 db)) =
            map (\<lambda>r. if ?P r then ?g r else r) (policy_reviews db)
          \<and> filter ?P
               (policy_reviews
                 (snd (submit_policy_review pid review (Some cu) new_id now1 now2 db))) =
             [?g old])
      \<and> (filter ?P (policy_reviews db) = [] \<longrightarrow>
          policy_reviews (snd (submit_policy_review pid review (Some cu) new_id now1 now2 db)) =
            policy_reviews db @
              [\<lparr>r_id = new_id, r_policy_id = pid, r_user_email = e,
                r_review_status = ReviewStatus_value (rc_review_status review),
                r_created_at = now2, r_updated_at = now1\<rparr>])"
      using f by (simp add: eq update_where_map)
  qed
  from u l s show ?thesis by (intro conjI)
qed

theorem submit_policy_review_upsert_witness:
  "reviews_unique sample_db
   \<and> policy_reviews (run review_ops sample_db) =
       [\<lparr>r_id = ''r-1'', r_policy_id = ''2.3.1'', r_user_email = ''a@x.com'',
         r_review_status = ''needs_work'', r_created_at = ''t2'', r_updated_at = ''t3''\<rparr>]
   \<and> (resolve_user_email member_user sample_db = Some ''a@x.com''
      \<and> filter (\<lambda>r. p_policy_id r = ''2.3.1'') (policies sample_db) \<noteq> []
      \<and> filter (\<lambda>r. r_policy_id r = ''2.3.1'' \<and> r_user_email r = ''a@x.com'')
           (policy_reviews sample_db) = []
      \<and> policy_reviews
           (snd (submit_policy_review ''2.3.1'' confirm_review (Some member_user) ''r-1'' ''t1''
                   ''t2'' sample_db)) = [first_review])
   \<and> (reviews_unique reviewed_db
      \<and> resolve_user_email member_user reviewed_db = Some ''a@x.com''
      \<and> filter (\<lambda>r. p_policy_id r = ''2.3.1'') (policies reviewed_db) \<noteq> []
      \<and> filter (\<lambda>r. r_policy_id r = ''2.3.1'' \<and> r_user_email r = ''a@x.com'')
           (policy_reviews reviewed_db) = [first_review]
      \<and> policy_reviews
           (snd (submit_policy_review ''2.3.1'' needs_work_review (Some member_user) ''r-2''
                   ''t3'' ''t4'' reviewed_db)) =
         [first_review\<lparr>r_review_status := ''needs_work'', r_updated_at := ''t3''\<rparr>])"
proof -
  have u1: "reviews_unique sample_db"
    by (simp add: reviews_unique_def sample_db_def)
  have u2: "reviews_unique reviewed_db"
    by (simp add: reviews_unique_def reviewed_db_def)
  have r: "resolve_user_email member_user sample_db = Some ''a@x.com''"
    "resolve_user_email member_user reviewed_db = Some ''a@x.com''"
    by (simp_all add: resolve_user_email_def Let_def member_user_def)
  have p: "filter (\<lambda>r. p_policy_id r = ''2.3.1'') (policies sample_db) \<noteq> []"
    "filter (\<lambda>r. p_policy_id r = ''2.3.1'') (policies reviewed_db) \<noteq> []"
    by (simp_all add: reviewed_db_def sample_defs)
  have f: "filter (\<lambda>r. r_policy_id r = ''2.3.1'' \<and> r_user_email r = ''a@x.com'')
           (policy_reviews sample_db) = []"
    "filter (\<lambda>r. r_policy_id r = ''2.3.1'' \<and> r_user_email r = ''a@x.com'')
           (policy_reviews reviewed_db) = [first_review]"
    by (simp_all add: reviewed_db_def sample_db_def first_review_def)
  have s1: "snd (submit_policy_review ''2.3.1'' confirm_review (Some member_user) ''r-1'' ''t1''
                   ''t2'' sample_db) = reviewed_db"
    using submit_policy_review_upsert
            [OF u1, of "[]" "''2.3.1''" "''a@x.com''" member_user confirm_review "''r-1''"
               "''t1''" "''t2''"] r p f
    by (simp add: submit_policy_review_reviews reviewed_db_def first_review_def confirm_review_def
          sample_db_def)
  have s2: "snd (submit_policy_review ''2.3.1'' needs_work_review (Some member_user) ''r-2''
                   ''t3'' ''t4'' reviewed_db) =
      sample_db\<lparr>policy_reviews :=
        [first_review\<lparr>r_review_status := ''needs_work'', r_updated_at := ''t3''\<rparr>]\<rparr>"
    using r p f
    by (simp add: submit_policy_review_reviews update_where_def reviewed_db_def first_review_def
          needs_work_review_def sample_db_def)
  show ?thesis
    using submit_policy_review_upsert
            [OF u1, of review_ops "''2.3.1''" "''a@x.com''" member_user confirm_review "''r-1''"
               "''t1''" "''t2''"]
      submit_policy_review_upsert
            [OF u2, of "[]" "''2.3.1''" "''a@x.com''" member_user needs_work_review "''r-2''"
               "''t3''" "''t4''"]
      u1 u2 r p f
    by (simp add: s1 s2 review_ops_def first_review_def)
qed

section \<open>Search\<close>

text \<open>
  C8 at a concrete store: the approved policy named \<open>Travel\<close> is found by the search
  \<open>travel\<close> in the list operation, is listed by the approved-only operation without a
  search, and is missing from the approved-only operation with the same search. The
  approved-only filter reads the keys \<open>name\<close> and \<open>content\<close>, which the converted
  dictionaries do not have.
\<close>

theorem get_approved_policies_search_misses_name:
  "p_status travel_policy = ''approved''
   \<and> sublist (lower ''travel'') (lower (p_name travel_policy))
   \<and> get_policies (Some APPROVED) None (Some ''travel'') None 50 0 sample_db =
       [convert_policy_from_db travel_policy]
   \<and> get_approved_policies None None sample_db = [convert_policy_from_db travel_policy]
   \<and> get_approved_policies None (Some ''travel'') sample_db = []"
proof -
  have l: "lower ''travel'' = ''travel''" "lower ''Travel'' = ''travel''"
    "lower ''2.3.1'' = ''2.3.1''" "lower ''Old text'' = ''old text''"
    by code_simp+
  have q: "filter (\<lambda>r. p_status r = ''approved'') (policies sample_db) = [travel_policy]"
    by (simp add: sample_defs)
  have d: "dict_get (convert_policy_from_db travel_policy) ''policy_name'' [] = ''Travel''"
    "dict_get (convert_policy_from_db travel_policy) ''policy_id'' [] = ''2.3.1''"
    "dict_get (convert_policy_from_db travel_policy) ''policy_content'' [] = ''Old text''"
    "dict_get (convert_policy_from_db travel_policy) ''name'' [] = []"
    "dict_get (convert_policy_from_db travel_policy) ''content'' [] = []"
    by (simp_all add: dict_get_def convert_policy_from_db_def travel_policy_def)
  have e: "lower [] = []" by (simp add: lower_def)
  have s: "sublist ''travel'' ''travel''" "\<not> sublist ''travel'' ''2.3.1''"
    "\<not> sublist ''travel'' ''old text''" "\<not> sublist ''travel'' []"
    by code_simp+
  have 1: "p_status travel_policy = ''approved''" "p_name travel_policy = ''Travel''"
    by (simp_all add: travel_policy_def)
  have 2: "get_policies (Some APPROVED) None (Some ''travel'') None 50 0 sample_db =
       [convert_policy_from_db travel_policy]"
    by (simp add: get_policies_def Let_def q l d s)
  have 3: "get_approved_policies None None sample_db = [convert_policy_from_db travel_policy]"
    by (simp add: get_approved_policies_def Let_def q)
  have 4: "get_approved_policies None (Some ''travel'') sample_db = []"
    by (simp add: get_approved_policies_def Let_def q l d e s)
  from 1 2 3 4 l s show ?thesis by simp
qed

lemma filter_id_after_rekey:
  assumes "filter (\<lambda>u. u_id u = uid) rows = []"
  shows "filter (\<lambda>u. u_id u = uid)
           (update_where (\<lambda>u. u_email u = Some e) (\<lambda>u. u\<lparr>u_id := uid\<rparr>) rows) =
         map (\<lambda>u. u\<lparr>u_id := uid\<rparr>) (filter (\<lambda>u. u_email u = Some e) rows)"
  using assms by (induction rows) (auto simp: update_where_def split: if_splits)

lemma find_user_data_by_id:
  assumes "filter (\<lambda>u. u_id u = au_id user) (users db) = u # rest"
  shows "find_user_data user db = (u # rest, db)"
  using assms by (simp add: find_user_data_def)

lemma find_user_data_by_email:
  assumes "filter (\<lambda>u. u_id u = au_id user) (users db) = []"
    and "filter (\<lambda>u. u_email u = Some (au_email user)) (users db) = u # rest"
  shows "find_user_data user db =
     (u\<lparr>u_id := au_id user\<rparr> # map (\<lambda>u. u\<lparr>u_id := au_id user\<rparr>) rest,
      db\<lparr>users := update_where (\<lambda>u. u_email u = Some (au_email user))
                      (\<lambda>u. u\<lparr>u_id := au_id user\<rparr>) (users db)\<rparr>)"
  using assms filter_id_after_rekey[OF assms(1), of "au_email user"]
  by (simp add: find_user_data_def Let_def)

lemma find_user_data_none:
  assumes "filter (\<lambda>u. u_id u = au_id user) (users db) = []"
    and "filter (\<lambda>u. u_email u = Some (au_email user)) (users db) = []"
  shows "find_user_data user db = ([], db)"
  using assms by (simp add: find_user_data_def)

lemma login_with_row:
  assumes "sign_in login_data = Returns (Some ar)" "ar_user ar = Some user"
    "ar_session ar = Some session" "find_user_data user db = (u # rest, db1)"
  shows "login sign_in login_data db =
     (if can_login (u_role u)
      then Inr \<lparr>resp_access_token = as_access_token session, resp_token_type = ''bearer'',
                resp_user = \<lparr>lu_id = au_id user, lu_email = au_email user,
                              lu_name = u_name u, lu_role = u_role u\<rparr>\<rparr>
      else Inl (HTTPException 403 (role_denied_detail (u_role u))),
      db1)"
  using assms by (simp add: login_def Let_def can_login_def)

lemma login_without_row:
  assumes "sign_in login_data = Returns (Some ar)" "ar_user ar = Some user"
    "ar_session ar = Some session" "find_user_data user db = ([], db1)"
  shows "login sign_in login_data db =
     (Inl (HTTPException 403 no_row_denied_detail),
      db1\<lparr>users := users db1 @
             [\<lparr>u_id = au_id user, u_email = Some (au_email user), u_role = ''public'',
               u_name = None\<rparr>]\<rparr>)"
  using assms by (simp add: login_def)

lemma login_Inr_role:
  assumes "fst (login sign_in login_data db) = Inr resp"
  shows "can_login (lu_role (resp_user resp))"
proof (cases "sign_in login_data")
  case (Raises e)
  with assms show ?thesis by (simp add: login_def)
next
  case (Returns ro)
  show ?thesis
  proof (cases ro)
    case None
    with Returns assms show ?thesis by (simp add: login_def)
  next
    case (Some ar)
    show ?thesis
    proof (cases "ar_user ar")
      case None
      with Returns Some assms show ?thesis by (simp add: login_def)
    next
      case u: (Some user)
      show ?thesis
      proof (cases "ar_session ar")
        case None
        with Returns Some u assms show ?thesis by (simp add: login_def)
      next
        case s: (Some session)
        obtain ud db1 where f: "find_user_data user db = (ud, db1)"
          by (cases "find_user_data user db")
        show ?thesis
        proof (cases ud)
          case Nil
          with f have "find_user_data user db = ([], db1)" by simp
          from login_without_row[of sign_in login_data, OF Returns[unfolded Some] u s this] assms
          show ?thesis by simp
        next
          case (Cons x xs)
          with f have "find_user_data user db = (x # xs, db1)" by simp
          from login_with_row[of sign_in login_data, OF Returns[unfolded Some] u s this] assms
          show ?thesis by (auto split: if_splits)
        qed
      qed
    qed
  qed
qed

section \<open>Login\<close>

text \<open>
  C10. After a sign-in that returns a user and a session: when a users row is found (by
  id, or else by email) the login succeeds exactly when the row's role is \<open>admin\<close> or
  \<open>policy_working_group\<close>, and is answered with HTTP 403 otherwise, in particular for
  role \<open>public\<close>; when no users row is found, a row with role \<open>public\<close> is created and
  the login is answered with 403. Every login that returns a token returns one of the
  two admitted roles.
\<close>

theorem login_rejects_public:
  assumes "sign_in login_data = Returns (Some ar)"
    and "ar_user ar = Some user"
    and "ar_session ar = Some session"
  shows "(\<forall>u rest. (filter (\<lambda>u. u_id u = au_id user) (users db) = u # rest
             \<or> filter (\<lambda>u. u_id u = au_id user) (users db) = []
               \<and> filter (\<lambda>u. u_email u = Some (au_email user)) (users db) = u # rest) \<longrightarrow>
          fst (login sign_in login_data db) =
            (if can_login (u_role u)
             then Inr \<lparr>resp_access_token = as_access_token session,
                       resp_token_type = ''bearer'',
                       resp_user = \<lparr>lu_id = au_id user, lu_email = au_email user,
                                     lu_name = u_name u, lu_role = u_role u\<rparr>\<rparr>
             else Inl (HTTPException 403
                         (role_denied_detail (u_role u)))))
   \<and> (filter (\<lambda>u. u_id u = au_id user) (users db) = []
        \<and> filter (\<lambda>u. u_email u = Some (au_email user)) (users db) = [] \<longrightarrow>
        login sign_in login_data db =
          (Inl (HTTPException 403 no_row_denied_detail),
           db\<lparr>users := users db @
                [\<lparr>u_id = au_id user, u_email = Some (au_email user), u_role = ''public'',
                  u_name = None\<rparr>]\<rparr>))
   \<and> (\<forall>resp. fst (login sign_in login_data db) = Inr resp \<longrightarrow>
          can_login (lu_role (resp_user resp)))
   \<and> \<not> can_login ''public''"
proof -
  have 1: "\<forall>u rest. (filter (\<lambda>u. u_id u = au_id user) (users db) = u # rest
             \<or> filter (\<lambda>u. u_id u = au_id user) (users db) = []
               \<and> filter (\<lambda>u. u_email u = Some (au_email user)) (users db) = u # rest) \<longrightarrow>
          fst (login sign_in login_data db) =
            (if can_login (u_role u)
             then Inr \<lparr>resp_access_token = as_access_token session,
                       resp_token_type = ''bearer'',
                       resp_user = \<lparr>lu_id = au_id user, lu_email = au_email user,
                                     lu_name = u_name u, lu_role = u_role u\<rparr>\<rparr>
             else Inl (HTTPException 403
                         (role_denied_detail (u_role u))))"
  proof (intro allI impI, elim disjE conjE)
    fix u rest
    assume "filter (\<lambda>u. u_id u = au_id user) (users db) = u # rest"
    from login_with_row[of sign_in login_data, OF assms find_user_data_by_id[OF this]]
    show "fst (login sign_in login_data db) =
            (if can_login (u_role u)
             then Inr \<lparr>resp_access_token = as_access_token session,
                       resp_token_type = ''bearer'',
                       resp_user = \<lparr>lu_id = au_id user, lu_email = au_email user,
                                     lu_name = u_name u, lu_role = u_role u\<rparr>\<rparr>
             else Inl (HTTPException 403
                         (role_denied_detail (u_role u))))"
      by simp
  next
    fix u rest
    assume "filter (\<lambda>u. u_id u = au_id user) (users db) = []"
      "filter (\<lambda>u. u_email u = Some (au_email user)) (users db) = u # rest"
    from login_with_row[of sign_in login_data, OF assms find_user_data_by_email[OF this]]
    show "fst (login sign_in login_data db) =
            (if can_login (u_role u)
             then Inr \<lparr>resp_access_token = as_access_token session,
                       resp_token_type = ''bearer'',
                       resp_user = \<lparr>lu_id = au_id user, lu_email = au_email user,
                                     lu_name = u_name u, lu_role = u_role u\<rparr>\<rparr>
             else Inl (HTTPException 403
                         (role_denied_detail (u_role u))))"
      by simp
  qed
  have 2: "filter (\<lambda>u. u_id u = au_id user) (users db) = []
        \<and> filter (\<lambda>u. u_email u = Some (au_email user)) (users db) = [] \<longrightarrow>
        login sign_in login_data db =
          (Inl (HTTPException 403 no_row_denied_detail),
           db\<lparr>users := users db @
                [\<lparr>u_id = au_id user, u_email = Some (au_email user), u_role = ''public'',
                  u_name = None\<rparr>]\<rparr>)"
    using login_without_row[of sign_in login_data, OF assms find_user_data_none] by blast
  have 3: "\<forall>resp. fst (login sign_in login_data db) = Inr resp \<longrightarrow>
          can_login (lu_role (resp_user resp))"
    using login_Inr_role by blast
  have 4: "\<not> can_login ''public''" by (simp add: can_login_def)
  from 1 2 3 4 show ?thesis by (intro conjI)
qed

theorem login_rejects_public_witness:
  "(filter (\<lambda>u. u_id u = ''u-2'') (users users_db) =
      [\<lparr>u_id = ''u-2'', u_email = Some ''a@x.com'', u_role = ''public'', u_name = None\<rparr>]
    \<and> fst (login (provider ''u-2'') (credentials ''a@x.com'') users_db) =
        Inl (HTTPException 403
              (''Access denied. Your current role is 'public'. Only admin and policy working '' @
               ''group members can access the admin dashboard. Please contact an '' @
               ''administrator to upgrade your account.'')))
   \<and> (filter (\<lambda>u. u_id u = ''u-1'') (users users_db) =
      [\<lparr>u_id = ''u-1'', u_email = Some ''admin@x.com'', u_role = ''admin'',
        u_name = Some ''Ada''\<rparr>]
    \<and> fst (login (provider ''u-1'') (credentials ''admin@x.com'') users_db) =
        Inr \<lparr>resp_access_token = ''token'', resp_token_type = ''bearer'',
              resp_user = \<lparr>lu_id = ''u-1'', lu_email = ''admin@x.com'',
                            lu_name = Some ''Ada'', lu_role = ''admin''\<rparr>\<rparr>
    \<and> can_login ''admin'')
   \<and> (filter (\<lambda>u. u_id u = ''u-7'') (users users_db) = []
    \<and> filter (\<lambda>u. u_email u = Some ''new@x.com'') (users users_db) = []
    \<and> login (provider ''u-7'') (credentials ''new@x.com'') users_db =
        (Inl (HTTPException 403 no_row_denied_detail),
         users_db\<lparr>users := users users_db @
           [\<lparr>u_id = ''u-7'', u_email = Some ''new@x.com'', u_role = ''public'',
             u_name = None\<rparr>]\<rparr>))"
proof -
  have s: "\<And>uid email. provider uid (credentials email) = Returns (Some (signed_in uid email))"
    "\<And>uid email. ar_user (signed_in uid email) = Some \<lparr>au_id = uid, au_email = email\<rparr>"
    "\<And>uid email. ar_session (signed_in uid email) = Some \<lparr>as_access_token = ''token''\<rparr>"
    by (simp_all add: provider_def credentials_def signed_in_def)
  have f: "filter (\<lambda>u. u_id u = ''u-2'') (users users_db) =
      [\<lparr>u_id = ''u-2'', u_email = Some ''a@x.com'', u_role = ''public'', u_name = None\<rparr>]"
    "filter (\<lambda>u. u_id u = ''u-1'') (users users_db) =
      [\<lparr>u_id = ''u-1'', u_email = Some ''admin@x.com'', u_role = ''admin'',
        u_name = Some ''Ada''\<rparr>]"
    "filter (\<lambda>u. u_id u = ''u-7'') (users users_db) = []"
    "filter (\<lambda>u. u_email u = Some ''new@x.com'') (users users_db) = []"
    by (simp_all add: users_db_def)
  have c: "can_login ''admin''" "\<not> can_login ''public''"
    by (simp_all add: can_login_def)
  show ?thesis
    using login_rejects_public [of "provider ''u-2''" "credentials ''a@x.com''", OF s, of users_db]
      login_rejects_public [of "provider ''u-1''" "credentials ''admin@x.com''", OF s, of users_db]
      login_rejects_public [of "provider ''u-7''" "credentials ''new@x.com''", OF s, of users_db]
    by (simp add: f c role_denied_detail_def)
qed

end
